theory Spec2Isabelle
  imports Complex_Main
begin

section \<open>Histogram ratio and grid plotting scripts (ratio.py, 2DHistogram.py)\<close>

text \<open>
  The two scripts load one-dimensional histograms from result files through the
  histogramming library, transform them (normalise and divide, or re-pack as rows of a
  two-dimensional histogram) and render an image. The model below follows the two source
  files function by function.

  Modelling conventions.
  \<^item> A Python value that may be \<open>None\<close> (a histogram that failed to load, a null
    object returned by the library) is an \<open>option\<close>; Python's truth test \<open>if not hist\<close>
    is the test for \<open>None\<close>.
  \<^item> A function that can raise returns a sum: \<open>Inl\<close> of the exception raised, \<open>Inr\<close> of
    its result. Nothing in the scripts catches the exceptions of the library, so an
    exception ends the run with exit status 1.
  \<^item> Every function that prints returns the list of messages it printed, in order, next
    to its result. Messages are values of the datatype \<open>message\<close>, one constructor per
    error or warning \<open>print\<close> statement of the source, carrying the interpolated values
    (a file path is represented by the file name). Purely informational prints are not
    recorded.
  \<^item> A run of a script is modelled from the parsed arguments on: the command-line parser
    of the standard library runs before, and an invocation it rejects ends there. The
    plots directory is taken to exist or to be creatable, and saving the canvas to write
    its file.
  \<^item> Bin contents are the real numbers that the machine numbers stand for. Every
    arithmetic operation of the code rounds its exact result to double precision, and a
    histogram stores a value at the precision of its class. The range of the machine
    numbers is not modelled: a result beyond it (an infinity in the machine) is outside
    the model, and so are histograms that hold infinities or NaN.
  \<^item> The file system is a function from file names (relative to the ntuples directory) to
    what the library finds there. The output is the list of image files written (their
    names relative to the plots directory).
  \<^item> Of the histogramming library only the operations the scripts call are modelled,
    after the library's documented behaviour: bin contents with the underflow cell 0 and
    the overflow cell \<open>nbins + 1\<close>, bin labels, cloning, scaling, division, opening a
    file. Drawing attributes (colours, marker styles, title sizes) and bin errors are left
    out.
\<close>

subsection \<open>Python string operations used by the scripts\<close>

definition digit_char :: "nat \<Rightarrow> char" where
  "digit_char d = char_of (48 + d)"

text \<open>\<open>str(n)\<close> for a non-negative integer: its decimal digits.\<close>

function str_nat :: "nat \<Rightarrow> string" where
  "str_nat n = (if n < 10 then [digit_char n] else str_nat (n div 10) @ [digit_char (n mod 10)])"
  by pat_completeness auto
termination
  by (relation "measure (\<lambda>n. n)") auto

declare str_nat.simps [simp del]

text \<open>How an f-string renders an \<open>int\<close> field: \<open>str(i)\<close>, with a minus sign when negative.\<close>

definition str_int :: "int \<Rightarrow> string" where
  "str_int i = (if i < 0 then CHR ''-'' # str_nat (nat (- i)) else str_nat (nat i))"

text \<open>
  \<open>s.replace(old, new)\<close>: every non-overlapping occurrence of \<open>old\<close>, found from the
  left, is replaced. For the empty \<open>old\<close> Python inserts \<open>new\<close> before every character and
  at the end.
\<close>

function replace_str :: "string \<Rightarrow> string \<Rightarrow> string \<Rightarrow> string" where
  "replace_str old new s =
     (if old = [] then new @ concat (map (\<lambda>c. c # new) s)
      else if s = [] then []
      else if take (length old) s = old
        then new @ replace_str old new (drop (length old) s)
      else hd s # replace_str old new (tl s))"
  by pat_completeness auto
termination
  by (relation "measure (\<lambda>(old, new, s). length s)") auto

declare replace_str.simps [simp del]

text \<open>\<open>s.split(sep)\<close> for a one-character separator: \<open>"".split(",")\<close> is \<open>[""]\<close>.\<close>

fun split_str :: "char \<Rightarrow> string \<Rightarrow> string list" where
  "split_str sep [] = [[]]"
| "split_str sep (c # cs) =
     (if c = sep then [] # split_str sep cs
      else (case split_str sep cs of
              [] \<Rightarrow> [[c]]
            | p # ps \<Rightarrow> (c # p) # ps))"

text \<open>
  The characters \<open>str.strip()\<close> removes, among the code points below 256: tab, line feed,
  vertical tab, form feed, carriage return, the four separators 28 to 31, space, 133
  and 160.
\<close>

definition py_isspace :: "char \<Rightarrow> bool" where
  "py_isspace c =
     (let n = (of_char c :: nat)
      in (9 \<le> n \<and> n \<le> 13) \<or> (28 \<le> n \<and> n \<le> 32) \<or> n = 133 \<or> n = 160)"

definition strip :: "string \<Rightarrow> string" where
  "strip s = rev (dropWhile py_isspace (rev (dropWhile py_isspace s)))"

text \<open>\<open>str.lower()\<close> on the ASCII letters; other characters are left as they are.\<close>

definition lower_char :: "char \<Rightarrow> char" where
  "lower_char c =
     (let n = (of_char c :: nat)
      in if 65 \<le> n \<and> n \<le> 90 then char_of (n + 32) else c)"

definition lower :: "string \<Rightarrow> string" where
  "lower s = map lower_char s"

text \<open>\<open>sep.join(xs)\<close>.\<close>

fun join_str :: "string \<Rightarrow> string list \<Rightarrow> string" where
  "join_str sep [] = []"
| "join_str sep [x] = x"
| "join_str sep (x # y # ys) = x @ sep @ join_str sep (y # ys)"

subsection \<open>Machine numbers\<close>

text \<open>
  Rounding to the nearest integer, a tie going to the even one.
\<close>

definition round_half_even :: "real \<Rightarrow> int" where
  "round_half_even y =
     (let n = \<lfloor>y\<rfloor>; f = y - of_int n
      in if f < 1 / 2 then n
         else if f > 1 / 2 then n + 1
         else if even n then n else n + 1)"

text \<open>
  Rounding to the nearest binary floating-point number with \<open>p\<close> significant bits, a tie
  going to the even significand. The result is a multiple of \<open>2 powi q\<close>, where \<open>q\<close> is
  \<open>p - 1\<close> below the binary exponent of \<open>x\<close>, and not below \<open>emin\<close> (the spacing of the
  subnormal numbers).
\<close>

definition round_float :: "nat \<Rightarrow> int \<Rightarrow> real \<Rightarrow> real" where
  "round_float p emin x =
     (if x = 0 then 0
      else (let e = \<lfloor>log 2 \<bar>x\<bar>\<rfloor>;
                q = max (e - int p + 1) emin
            in of_int (round_half_even (x / 2 powi q)) * 2 powi q))"

text \<open>
  Double precision (Python's \<open>float\<close>, the library's \<open>Double_t\<close>): 53 significant bits.
  Single precision (the library's \<open>Float_t\<close>): 24 significant bits.
\<close>

definition double_round :: "real \<Rightarrow> real" where
  "double_round = round_float 53 (- 1074)"

definition single_round :: "real \<Rightarrow> real" where
  "single_round = round_float 24 (- 149)"

text \<open>The conversion of a double to an integer type (\<open>Int_t(x)\<close>): towards zero.\<close>

definition int_truncate :: "real \<Rightarrow> real" where
  "int_truncate x = (if 0 \<le> x then of_int \<lfloor>x\<rfloor> else of_int \<lceil>x\<rceil>)"

subsection \<open>One-dimensional histograms and result files\<close>

text \<open>
  The classes of one-dimensional histograms differ in the type of their cells: double
  precision (\<open>TH1D\<close>), single precision (\<open>TH1F\<close>), and integers of 8, 16, 32 and 64 bits
  (\<open>TH1C\<close>, \<open>TH1S\<close>, \<open>TH1I\<close>, \<open>TH1L\<close>). \<open>store_cell\<close> is what a cell of the class holds
  after the double \<open>x\<close> is written to it; \<open>capacity\<close> is a magnitude up to which the
  class holds a value without overflow.
\<close>

datatype th1_class = TH1D | TH1F | TH1C | TH1S | TH1I | TH1L

definition store_cell :: "th1_class \<Rightarrow> real \<Rightarrow> real" where
  "store_cell cls x =
     (case cls of TH1D \<Rightarrow> x | TH1F \<Rightarrow> single_round x | _ \<Rightarrow> int_truncate x)"

definition capacity :: "th1_class \<Rightarrow> real" where
  "capacity cls =
     (case cls of
        TH1D \<Rightarrow> 2 ^ 1023
      | TH1F \<Rightarrow> 2 ^ 127
      | TH1C \<Rightarrow> 2 ^ 7 - 1
      | TH1S \<Rightarrow> 2 ^ 15 - 1
      | TH1I \<Rightarrow> 2 ^ 31 - 1
      | TH1L \<Rightarrow> 2 ^ 62)"

text \<open>
  A one-dimensional histogram of the library. \<open>th1_bins\<close> holds all cells: index 0 is the
  underflow cell, indices 1 to \<open>th1_nbins\<close> the bins proper, index \<open>th1_nbins + 1\<close> the
  overflow cell.
\<close>

record TH1 =
  th1_class :: th1_class
  th1_name :: string
  th1_title :: string
  th1_nbins :: nat
  th1_xmin :: real
  th1_xmax :: real
  th1_bins :: "real list"
  th1_xlabels :: "nat \<rightharpoonup> string"
  th1_xtitle :: string

text \<open>
  A histogram of the library has at least one bin (the constructor turns a bin count of 0
  into 1) and one cell per bin plus the underflow and overflow cells.
\<close>

definition wf_TH1 :: "TH1 \<Rightarrow> bool" where
  "wf_TH1 h = (1 \<le> th1_nbins h \<and> length (th1_bins h) = th1_nbins h + 2)"

text \<open>
  \<open>GetBinContent(bin)\<close>: the library clamps the cell number into the cells that exist
  (a number beyond the overflow cell reads the overflow cell).
\<close>

definition GetBinContent :: "TH1 \<Rightarrow> nat \<Rightarrow> real" where
  "GetBinContent h bin =
     (if th1_bins h = [] then 0
      else th1_bins h ! (min bin (length (th1_bins h) - 1)))"

definition GetNbinsX :: "TH1 \<Rightarrow> nat" where
  "GetNbinsX h = th1_nbins h"

text \<open>\<open>GetBinLabel(bin)\<close> of the X axis: the empty string when the bin has no label.\<close>

definition GetBinLabel :: "(nat \<rightharpoonup> string) \<Rightarrow> nat \<Rightarrow> string" where
  "GetBinLabel labels bin = (case labels bin of None \<Rightarrow> [] | Some l \<Rightarrow> l)"

text \<open>
  \<open>SetBinLabel(bin, label)\<close> on an axis with \<open>nbins\<close> bins: an illegal bin number (0 or
  beyond \<open>nbins\<close>) is reported by the library and nothing is set; a bin that has a label
  gets the new one.
\<close>

definition SetBinLabel :: "nat \<Rightarrow> (nat \<rightharpoonup> string) \<Rightarrow> nat \<Rightarrow> string \<Rightarrow> (nat \<rightharpoonup> string)" where
  "SetBinLabel nbins labels bin label =
     (if bin = 0 \<or> bin > nbins then labels else labels(bin \<mapsto> label))"

text \<open>\<open>Clone(newname)\<close>: an independent copy under a new name.\<close>

definition Clone :: "TH1 \<Rightarrow> string \<Rightarrow> TH1" where
  "Clone h newname = h\<lparr>th1_name := newname\<rparr>"

definition SetTitle :: "TH1 \<Rightarrow> string \<Rightarrow> TH1" where
  "SetTitle h t = h\<lparr>th1_title := t\<rparr>"

text \<open>
  \<open>Scale(c1)\<close>: every cell, underflow and overflow included, is multiplied by \<open>c1\<close> in
  double precision and the product is written back to the cell.
\<close>

definition Scale :: "TH1 \<Rightarrow> real \<Rightarrow> TH1" where
  "Scale h c1 =
     h\<lparr>th1_bins := map (\<lambda>c. store_cell (th1_class h) (double_round (c1 * c))) (th1_bins h)\<rparr>"

text \<open>
  \<open>h.Divide(h1)\<close>: when the two histograms have different numbers of cells the library
  reports it and leaves \<open>h\<close> as it is; otherwise every cell, underflow and overflow
  included, becomes \<open>c0 / c1\<close>, divided in double precision and written to the cell of
  \<open>h\<close>, where the cell \<open>c1\<close> of \<open>h1\<close> is not zero, and 0 where it is.
\<close>

definition Divide :: "TH1 \<Rightarrow> TH1 \<Rightarrow> TH1" where
  "Divide h h1 =
     (if length (th1_bins h) \<noteq> length (th1_bins h1) then h
      else h\<lparr>th1_bins :=
             map (\<lambda>(c0, c1). if c1 \<noteq> 0
                              then store_cell (th1_class h) (double_round (c0 / c1)) else 0)
                 (zip (th1_bins h) (th1_bins h1))\<rparr>)"

text \<open>
  What there is at a file name: no file (\<open>filepath.exists()\<close> is false), a file that the
  library cannot open, or a file whose \<open>Get(name)\<close> yields the histogram stored under the
  full name \<open>directory/name\<close>, or a null object.
\<close>

datatype root_file = Missing | Unreadable | RootFile "string \<rightharpoonup> TH1"

type_synonym file_system = "string \<Rightarrow> root_file"

datatype py_error = AttributeError | ValueError | OSError

text \<open>
  \<open>TFile.Open(path, "READ")\<close> through the Python binding of the library: where the library
  cannot open the file (its own result is a null file) the binding raises \<open>OSError\<close>. The
  binding never returns a null or zombie file; the result type keeps the \<open>None\<close> that the
  scripts test for.
\<close>

definition TFile_Open :: "file_system \<Rightarrow> string \<Rightarrow> py_error + (string \<rightharpoonup> TH1) option" where
  "TFile_Open fs filepath =
     (case fs filepath of
        RootFile root_file \<Rightarrow> Inr (Some root_file)
      | _ \<Rightarrow> Inl OSError)"

text \<open>
  The messages, with the text each stands for:
  \<open>Error_FileNotFound f\<close> "Error: File f not found!",
  \<open>Error_CannotOpen f\<close> "Error: Cannot open file f",
  \<open>Error_HistNotFound n f\<close> "Error: Histogram 'n' not found in f",
  \<open>Warning_ZeroEvents n f\<close> "Warning: Histogram 'n' in f has zero events, cannot
  normalize.",
  \<open>Error_HistsNone\<close> "Error: One or both histograms are None",
  \<open>Error_HistsNone_save\<close> "Error: One or more histograms are None",
  \<open>Error_YRange\<close> "Error: --y-range must be a comma-separated list of numbers",
  \<open>Error_LoadFailed\<close> "Error: Failed to load one or both histograms",
  \<open>Error_RatioFailed\<close> "Error: Failed to create ratio histogram",
  \<open>Error_NoHistsProvided\<close> "Error: No histograms provided",
  \<open>Warning_Skipping c d\<close> "Warning: Skipping c d due to loading failure",
  \<open>Error_NoneLoaded\<close> "Error: No histograms could be loaded successfully",
  \<open>Error_2DFailed\<close> "Error: Failed to create 2D histogram",
  \<open>Error_2DNone\<close> "Error: 2D histogram is None".
\<close>

datatype message =
    Error_FileNotFound string
  | Error_CannotOpen string
  | Error_HistNotFound string string
  | Warning_ZeroEvents string string
  | Error_HistsNone
  | Error_HistsNone_save
  | Error_YRange
  | Error_LoadFailed
  | Error_RatioFailed
  | Error_NoHistsProvided
  | Warning_Skipping string string
  | Error_NoneLoaded
  | Error_2DFailed
  | Error_2DNone

subsection \<open>Two-dimensional histograms\<close>

text \<open>
  A two-dimensional histogram of the library. A cell is addressed by its X and Y bin
  numbers; 0 and \<open>nbins + 1\<close> are the underflow and overflow cells of an axis. The
  cells of this class are single-precision numbers.
\<close>

record TH2F =
  th2_name :: string
  th2_title :: string
  th2_nbinsx :: nat
  th2_xmin :: real
  th2_xmax :: real
  th2_nbinsy :: nat
  th2_ymin :: real
  th2_ymax :: real
  th2_cells :: "nat \<times> nat \<Rightarrow> real"
  th2_xlabels :: "nat \<rightharpoonup> string"
  th2_ylabels :: "nat \<rightharpoonup> string"
  th2_xtitle :: string
  th2_ytitle :: string
  th2_ztitle :: string

text \<open>
  The constructor \<open>TH2F(name, title, nbinsx, xlow, xup, nbinsy, ylow, yup)\<close>: all cells are
  0 and no bin has a label; a bin count of 0 is turned into 1 by the library.
\<close>

definition new_TH2F :: "string \<Rightarrow> string \<Rightarrow> nat \<Rightarrow> real \<Rightarrow> real \<Rightarrow> nat \<Rightarrow> real \<Rightarrow> real \<Rightarrow> TH2F" where
  "new_TH2F name title nbinsx xlow xup nbinsy ylow yup =
     \<lparr>th2_name = name, th2_title = title,
      th2_nbinsx = (if nbinsx = 0 then 1 else nbinsx), th2_xmin = xlow, th2_xmax = xup,
      th2_nbinsy = (if nbinsy = 0 then 1 else nbinsy), th2_ymin = ylow, th2_ymax = yup,
      th2_cells = (\<lambda>cell. 0), th2_xlabels = Map.empty, th2_ylabels = Map.empty,
      th2_xtitle = [], th2_ytitle = [], th2_ztitle = []\<rparr>"

text \<open>\<open>GetBin(binx, biny)\<close>: each bin number is clamped into the cells of its axis.\<close>

definition GetBin :: "TH2F \<Rightarrow> nat \<Rightarrow> nat \<Rightarrow> nat \<times> nat" where
  "GetBin h binx biny = (min binx (th2_nbinsx h + 1), min biny (th2_nbinsy h + 1))"

text \<open>\<open>SetBinContent(binx, biny, content)\<close>: the double is converted to single precision.\<close>

definition SetBinContent2 :: "TH2F \<Rightarrow> nat \<Rightarrow> nat \<Rightarrow> real \<Rightarrow> TH2F" where
  "SetBinContent2 h binx biny content =
     h\<lparr>th2_cells := (th2_cells h)(GetBin h binx biny := single_round content)\<rparr>"

definition GetBinContent2 :: "TH2F \<Rightarrow> nat \<Rightarrow> nat \<Rightarrow> real" where
  "GetBinContent2 h binx biny = th2_cells h (GetBin h binx biny)"

text \<open>
  What a script renders into an image file: for the ratio plot the two histograms, the
  ratio histogram, the two legend labels, the log-scale flag and the Y range set on the
  top pad (if any); for the grid the two-dimensional histogram and the log-scale flag.
\<close>

datatype image =
    Ratio_Image TH1 TH1 TH1 string string bool "(real \<times> real) option"
  | Grid_Image TH2F bool

text \<open>
  The outcome of a run of a script: the exit status of the process, the image files
  written (name relative to the plots directory, and content) and the messages printed.
\<close>

record run_result =
  exit_code :: nat
  outputs :: "(string \<times> image) list"
  console :: "message list"

subsection \<open>ratio.py: class HistogramRatioPlotter\<close>

text \<open>\<open>construct_filename\<close> (ratio.py).\<close>

definition ratio_construct_filename :: "int \<Rightarrow> int \<Rightarrow> string \<Rightarrow> string \<Rightarrow> string \<Rightarrow> string" where
  "ratio_construct_filename gluino_mass neutralino_mass ctau decay_type era =
     ''gluino'' @ str_int gluino_mass @ ''_chi10'' @ str_int neutralino_mass @ ''_'' @ ctau
       @ ''_'' @ decay_type @ ''_'' @ era @ ''.root''"

text \<open>
  The normalisation block of \<open>load_histogram\<close> (ratio.py): the content of bin 1 is the
  event count; when it is positive the clone is scaled by \<open>1.0 / eventCount\<close> (a division
  in double precision), otherwise a warning is printed and the clone is left as it is.
\<close>

definition normalize_hist :: "TH1 \<Rightarrow> string \<Rightarrow> string \<Rightarrow> TH1 \<times> message list" where
  "normalize_hist hist_clone full_hist_name filename =
     (let eventCount = GetBinContent hist_clone 1
      in if eventCount > 0 then (Scale hist_clone (double_round (1 / eventCount)), [])
         else (hist_clone, [Warning_ZeroEvents full_hist_name filename]))"

text \<open>
  \<open>load_histogram\<close> (ratio.py). A file that does not exist gives \<open>None\<close> and a message; a
  file that cannot be opened raises in \<open>TFile.Open\<close>, before the test for a null file. The
  histogram is looked up under the directory \<open>HSCPMiniAODAnalyzer\<close> first and under
  \<open>HSCPFullAODAnalyzer\<close> when that fails; the clone is named
  \<open>hist_name + "_" + filename.replace(".root", "")\<close> and normalised.
\<close>

definition ratio_load_histogram ::
  "file_system \<Rightarrow> string \<Rightarrow> string \<Rightarrow> py_error + (TH1 option \<times> message list)" where
  "ratio_load_histogram fs filename hist_name =
     (if fs filename = Missing then Inr (None, [Error_FileNotFound filename])
      else
        (case TFile_Open fs filename of
           Inl e \<Rightarrow> Inl e
         | Inr None \<Rightarrow> Inr (None, [Error_CannotOpen filename])
         | Inr (Some root_file) \<Rightarrow>
             (let found =
                    (case root_file (''HSCPMiniAODAnalyzer/'' @ hist_name) of
                       Some hist \<Rightarrow> Some (hist, ''HSCPMiniAODAnalyzer/'' @ hist_name)
                     | None \<Rightarrow>
                         (case root_file (''HSCPFullAODAnalyzer/'' @ hist_name) of
                            Some hist \<Rightarrow> Some (hist, ''HSCPFullAODAnalyzer/'' @ hist_name)
                          | None \<Rightarrow> None))
              in case found of
                   None \<Rightarrow>
                     Inr (None, [Error_HistNotFound (''HSCPFullAODAnalyzer/'' @ hist_name) filename])
                 | Some (hist, full_hist_name) \<Rightarrow>
                     (let hist_clone =
                            Clone hist (hist_name @ ''_'' @ replace_str ''.root'' [] filename);
                          (hist_norm, msgs) = normalize_hist hist_clone full_hist_name filename
                      in Inr (Some hist_norm, msgs)))))"

text \<open>
  \<open>create_ratio_plot\<close> (ratio.py): a clone of the numerator, retitled and divided by the
  denominator.
\<close>

definition create_ratio_plot :: "TH1 option \<Rightarrow> TH1 option \<Rightarrow> string \<Rightarrow> TH1 option \<times> message list" where
  "create_ratio_plot hist1 hist2 title =
     (case (hist1, hist2) of
        (Some h1, Some h2) \<Rightarrow>
          (let ratio = Clone h1 (''ratio_'' @ th1_name h1 @ ''_'' @ th1_name h2);
               ratio = SetTitle ratio title;
               ratio = Divide ratio h2
           in (Some ratio, []))
      | _ \<Rightarrow> (None, [Error_HistsNone]))"

text \<open>
  \<open>format_ctau_label\<close> (ratio.py): the legend label of a histogram. The source writes a raw
  string, so the label starts with the five characters \<open>c\<close>, backslash, \<open>t\<close>, \<open>a\<close>, \<open>u\<close>.
\<close>

definition format_ctau_label :: "string \<Rightarrow> string \<Rightarrow> string" where
  "format_ctau_label ctau decay_type =
     (let ctau_display =
            (if ctau = ''10000mm'' then ''10k''
             else if ctau = ''1000mm'' then ''1k''
             else replace_str ''mm'' [] (replace_str ''p'' ''.'' ctau));
          decay_label = (if decay_type = ''lightDecay'' then ''(L)'' else ''(H)'')
      in ''c'' @ [char_of (92 :: nat)] @ ''tau = '' @ ctau_display @ '' mm '' @ decay_label)"

text \<open>
  \<open>save_ratio_plot\<close> (ratio.py): one image file \<open>output_name + ".pdf"\<close>. The title of the
  ratio histogram is removed before drawing; a non-empty \<open>y_range\<close> sets the Y range of
  the two histograms of the top pad to its minimum and maximum.
\<close>

definition save_ratio_plot ::
  "TH1 option \<Rightarrow> TH1 option \<Rightarrow> TH1 option \<Rightarrow> string \<Rightarrow> string \<Rightarrow> string \<Rightarrow> bool
     \<Rightarrow> real list option \<Rightarrow> (string \<times> image) list \<times> message list" where
  "save_ratio_plot hist1 hist2 ratio_hist output_name numerator_label denominator_label
       log_scale y_range =
     (case (hist1, hist2, ratio_hist) of
        (Some h1, Some h2, Some r) \<Rightarrow>
          (let range_user =
                 (case y_range of
                    None \<Rightarrow> None
                  | Some [] \<Rightarrow> None
                  | Some (y # ys) \<Rightarrow> Some (fold min ys y, fold max ys y));
               picture = Ratio_Image h1 h2 (SetTitle r []) numerator_label denominator_label
                           log_scale range_user
           in ([(output_name @ ''.pdf'', picture)], []))
      | _ \<Rightarrow> ([], [Error_HistsNone_save]))"

text \<open>
  The arguments of ratio.py after the command-line parser: \<open>--hist-name\<close>,
  \<open>--gluino-mass\<close>, \<open>--neutralino-mass\<close>, \<open>--ctau1\<close>, \<open>--ctau2\<close>, \<open>--decay-type\<close>, \<open>--era\<close>,
  \<open>--output-name\<close>, \<open>--log-scale\<close>, \<open>--y-range\<close>.
\<close>

record ratio_args =
  r_hist_name :: string
  r_gluino_mass :: int
  r_neutralino_mass :: int
  r_ctau1 :: string
  r_ctau2 :: string
  r_decay_type :: string
  r_era :: string
  r_output_name :: string
  r_log_scale :: bool
  r_y_range :: string

text \<open>
  The parsing of \<open>--y-range\<close> in \<open>main\<close> (ratio.py): an empty string gives \<open>None\<close>; otherwise
  every piece between commas goes through Python's \<open>float\<close>, and the first piece it rejects
  raises \<open>ValueError\<close>. Python's \<open>float\<close> is a parameter of the model: \<open>pyfloat s\<close> is
  \<open>None\<close> where \<open>float(s)\<close> raises.
\<close>

definition parse_y_range :: "(string \<Rightarrow> real option) \<Rightarrow> string \<Rightarrow> py_error + real list option" where
  "parse_y_range pyfloat s =
     (if s = [] then Inr None
      else (case those (map pyfloat (split_str CHR '','' s)) of
              None \<Rightarrow> Inl ValueError
            | Some ys \<Rightarrow> Inr (Some ys)))"

text \<open>
  \<open>main\<close> (ratio.py), from the parsed arguments on. \<open>sys.exit(1)\<close> ends the run with exit
  status 1, and so does an exception raised by a loader; a run that reaches the end of
  \<open>main\<close> has exit status 0.
\<close>

definition ratio_main :: "(string \<Rightarrow> real option) \<Rightarrow> file_system \<Rightarrow> ratio_args \<Rightarrow> run_result" where
  "ratio_main pyfloat fs args =
     (case parse_y_range pyfloat (r_y_range args) of
        Inl e \<Rightarrow> \<lparr>exit_code = 1, outputs = [], console = [Error_YRange]\<rparr>
      | Inr y_range \<Rightarrow>
          (let filename1 = ratio_construct_filename (r_gluino_mass args) (r_neutralino_mass args)
                             (r_ctau1 args) (r_decay_type args) (r_era args);
               filename2 = ratio_construct_filename (r_gluino_mass args) (r_neutralino_mass args)
                             (r_ctau2 args) (r_decay_type args) (r_era args)
           in case ratio_load_histogram fs filename1 (r_hist_name args) of
                Inl e \<Rightarrow> \<lparr>exit_code = 1, outputs = [], console = []\<rparr>
              | Inr (hist1, msgs1) \<Rightarrow>
                  (case ratio_load_histogram fs filename2 (r_hist_name args) of
                     Inl e \<Rightarrow> \<lparr>exit_code = 1, outputs = [], console = msgs1\<rparr>
                   | Inr (hist2, msgs2) \<Rightarrow>
                       if hist1 = None \<or> hist2 = None
                       then \<lparr>exit_code = 1, outputs = [],
                              console = msgs1 @ msgs2 @ [Error_LoadFailed]\<rparr>
                       else
                         (let title = r_hist_name args @ '' Ratio: '' @ r_ctau1 args @ '' / ''
                                        @ r_ctau2 args;
                              (ratio_hist, msgs3) = create_ratio_plot hist1 hist2 title
                          in if ratio_hist = None
                             then \<lparr>exit_code = 1, outputs = [],
                                    console = msgs1 @ msgs2 @ msgs3 @ [Error_RatioFailed]\<rparr>
                             else
                               (let output_name =
                                      (if r_output_name args \<noteq> [] then r_output_name args
                                       else ''ratio_'' @ r_hist_name args @ ''_gluino''
                                              @ str_int (r_gluino_mass args) @ ''_chi10''
                                              @ str_int (r_neutralino_mass args) @ ''_''
                                              @ r_ctau1 args @ ''_vs_'' @ r_ctau2 args @ ''_''
                                              @ r_decay_type args);
                                    numerator_label =
                                      format_ctau_label (r_ctau1 args) (r_decay_type args);
                                    denominator_label =
                                      format_ctau_label (r_ctau2 args) (r_decay_type args);
                                    (files, msgs4) =
                                      save_ratio_plot hist1 hist2 ratio_hist output_name
                                        numerator_label denominator_label (r_log_scale args)
                                        y_range
                                in \<lparr>exit_code = 0, outputs = files,
                                     console = msgs1 @ msgs2 @ msgs3 @ msgs4\<rparr>)))))"

subsection \<open>2DHistogram.py: class Histogram2DPlotter\<close>

text \<open>\<open>construct_filename\<close> (2DHistogram.py).\<close>

definition grid_construct_filename :: "int \<Rightarrow> int \<Rightarrow> string \<Rightarrow> string \<Rightarrow> string \<Rightarrow> string" where
  "grid_construct_filename gluino_mass neutralino_mass ctau decay_type era =
     ''gluino'' @ str_int gluino_mass @ ''_chi10'' @ str_int neutralino_mass @ ''_'' @ ctau
       @ ''_'' @ decay_type @ ''_'' @ era @ ''.root''"

text \<open>
  \<open>load_histogram\<close> (2DHistogram.py): as in ratio.py up to the opening of the file; the
  histogram is looked up under the directory \<open>HSCPMiniAODAnalyzer\<close> only, and the clone is
  returned as it is.
\<close>

definition grid_load_histogram ::
  "file_system \<Rightarrow> string \<Rightarrow> string \<Rightarrow> py_error + (TH1 option \<times> message list)" where
  "grid_load_histogram fs filename hist_name =
     (if fs filename = Missing then Inr (None, [Error_FileNotFound filename])
      else
        (case TFile_Open fs filename of
           Inl e \<Rightarrow> Inl e
         | Inr None \<Rightarrow> Inr (None, [Error_CannotOpen filename])
         | Inr (Some root_file) \<Rightarrow>
             (case root_file (''HSCPMiniAODAnalyzer/'' @ hist_name) of
                None \<Rightarrow>
                  Inr (None, [Error_HistNotFound (''HSCPMiniAODAnalyzer/'' @ hist_name) filename])
              | Some hist \<Rightarrow>
                  Inr (Some (Clone hist (hist_name @ ''_'' @ replace_str ''.root'' [] filename)),
                       []))))"

text \<open>
  The three loops of \<open>create_2d_histogram\<close>: copying the X bin labels that exist,
  setting the Y bin labels, and filling row \<open>ctau_idx + 1\<close> from histogram \<open>ctau_idx\<close>
  (an entry that is \<open>None\<close> is skipped).
\<close>

definition copy_x_label :: "TH1 \<Rightarrow> nat \<Rightarrow> TH2F \<Rightarrow> TH2F" where
  "copy_x_label first_hist x_bin hist_2d =
     (let bin_label = GetBinLabel (th1_xlabels first_hist) x_bin
      in if bin_label \<noteq> []
         then hist_2d\<lparr>th2_xlabels :=
                SetBinLabel (th2_nbinsx hist_2d) (th2_xlabels hist_2d) x_bin bin_label\<rparr>
         else hist_2d)"

definition set_y_label :: "nat \<times> string \<Rightarrow> TH2F \<Rightarrow> TH2F" where
  "set_y_label = (\<lambda>(i, label) hist_2d.
     hist_2d\<lparr>th2_ylabels :=
       SetBinLabel (th2_nbinsy hist_2d) (th2_ylabels hist_2d) (i + 1) label\<rparr>)"

definition fill_row :: "nat \<Rightarrow> nat \<times> TH1 option \<Rightarrow> TH2F \<Rightarrow> TH2F" where
  "fill_row n_x_bins = (\<lambda>(ctau_idx, hist) hist_2d.
     (case hist of
        None \<Rightarrow> hist_2d
      | Some h \<Rightarrow>
          fold (\<lambda>x_bin g. SetBinContent2 g x_bin (ctau_idx + 1) (GetBinContent h x_bin))
               [1..<n_x_bins + 1] hist_2d))"

text \<open>
  \<open>create_2d_histogram\<close> (2DHistogram.py). An empty list gives \<open>None\<close> and a message; a
  first entry that is \<open>None\<close> makes \<open>first_hist.GetNbinsX()\<close> raise \<open>AttributeError\<close>.
\<close>

definition create_2d_histogram ::
  "TH1 option list \<Rightarrow> string list \<Rightarrow> string \<Rightarrow> py_error + (TH2F option \<times> message list)" where
  "create_2d_histogram histograms ctau_labels hist_name =
     (case histograms of
        [] \<Rightarrow> Inr (None, [Error_NoHistsProvided])
      | None # _ \<Rightarrow> Inl AttributeError
      | Some first_hist # _ \<Rightarrow>
          (let n_x_bins = GetNbinsX first_hist;
               x_min = th1_xmin first_hist;
               x_max = th1_xmax first_hist;
               n_ctau = length histograms;
               hist_2d = new_TH2F (''2D_'' @ hist_name) (''2D '' @ hist_name)
                           n_x_bins x_min x_max n_ctau 0 (real n_ctau);
               hist_2d = fold (copy_x_label first_hist) [1..<n_x_bins + 1] hist_2d;
               hist_2d = fold set_y_label (enumerate 0 ctau_labels) hist_2d;
               hist_2d = fold (fill_row n_x_bins) (enumerate 0 histograms) hist_2d;
               hist_2d = hist_2d\<lparr>th2_xtitle := th1_xtitle first_hist,
                                  th2_ytitle := ''ctau [mm] (Decay Type)'',
                                  th2_ztitle := ''Counts''\<rparr>
           in Inr (Some hist_2d, [])))"

text \<open>\<open>save_2d_plot\<close> (2DHistogram.py): one image file \<open>output_name + ".pdf"\<close>.\<close>

definition save_2d_plot :: "TH2F option \<Rightarrow> string \<Rightarrow> bool \<Rightarrow> (string \<times> image) list \<times> message list" where
  "save_2d_plot hist_2d output_name log_scale_z =
     (case hist_2d of
        None \<Rightarrow> ([], [Error_2DNone])
      | Some h \<Rightarrow> ([(output_name @ ''.pdf'', Grid_Image h log_scale_z)], []))"

text \<open>\<open>parse_ctau_list\<close> (2DHistogram.py).\<close>

definition parse_ctau_list :: "string \<Rightarrow> string list" where
  "parse_ctau_list ctau_string = map strip (split_str CHR '','' ctau_string)"

text \<open>
  The arguments of 2DHistogram.py after the command-line parser: \<open>--hist-name\<close>,
  \<open>--gluino-mass\<close>, \<open>--neutralino-mass\<close>, \<open>--ctaus\<close>, \<open>--decay-types\<close>, \<open>--era\<close>,
  \<open>--output-name\<close>, and the flag set by \<open>--log-scale-z\<close> and \<open>--linear-scale-z\<close>.
\<close>

record grid_args =
  g_hist_name :: string
  g_gluino_mass :: int
  g_neutralino_mass :: int
  g_ctaus :: string
  g_decay_types :: string
  g_era :: string
  g_output_name :: string
  g_log_scale_z :: bool

text \<open>The decay types \<open>main\<close> (2DHistogram.py) processes.\<close>

definition grid_decay_types :: "grid_args \<Rightarrow> string list" where
  "grid_decay_types args =
     (if lower (g_decay_types args) = ''both'' then [''lightDecay'', ''heavyDecay'']
      else [g_decay_types args])"

text \<open>The row label \<open>main\<close> (2DHistogram.py) generates for a loaded histogram.\<close>

definition grid_label :: "string \<Rightarrow> string \<Rightarrow> string" where
  "grid_label ctau decay_type =
     (let decay_label = (if decay_type = ''lightDecay'' then ''L'' else ''H'');
          ctau_display =
            (if ctau = ''1000mm'' then ''1k''
             else if ctau = ''10000mm'' then ''10k''
             else replace_str ''p'' ''.'' (replace_str ''mm'' [] ctau))
      in ctau_display @ '' ('' @ decay_label @ '')'')"

text \<open>
  The body of the loading loops of \<open>main\<close> (2DHistogram.py), on the state
  \<open>(raised, histograms, valid_labels, messages)\<close>: a loaded histogram and its label are
  appended, a failure prints a warning and is skipped. An exception of the loader leaves
  the loops: the state keeps it in \<open>raised\<close>, and the iterations that remain do nothing.
\<close>

type_synonym load_state = "py_error option \<times> TH1 list \<times> string list \<times> message list"

definition load_one ::
  "file_system \<Rightarrow> grid_args \<Rightarrow> string \<Rightarrow> string \<Rightarrow> load_state \<Rightarrow> load_state" where
  "load_one fs args decay_type ctau = (\<lambda>(raised, histograms, valid_labels, msgs).
     (case raised of
        Some e \<Rightarrow> (Some e, histograms, valid_labels, msgs)
      | None \<Rightarrow>
          (let filename = grid_construct_filename (g_gluino_mass args) (g_neutralino_mass args)
                            ctau decay_type (g_era args)
           in case grid_load_histogram fs filename (g_hist_name args) of
                Inl e \<Rightarrow> (Some e, histograms, valid_labels, msgs)
              | Inr (hist, m) \<Rightarrow>
                  (case hist of
                     Some h \<Rightarrow>
                       (None, histograms @ [h], valid_labels @ [grid_label ctau decay_type],
                        msgs @ m)
                   | None \<Rightarrow>
                       (None, histograms, valid_labels,
                        msgs @ m @ [Warning_Skipping ctau decay_type])))))"

text \<open>The two nested loops: decay types outside, ctau values inside.\<close>

definition load_all ::
  "file_system \<Rightarrow> grid_args \<Rightarrow> string list \<Rightarrow> string list \<Rightarrow> load_state" where
  "load_all fs args decay_types ctau_list =
     fold (\<lambda>decay_type st. fold (load_one fs args decay_type) ctau_list st)
          decay_types (None, [], [], [])"

text \<open>
  \<open>main\<close> (2DHistogram.py), from the parsed arguments on. An exception that nothing
  catches ends the run with exit status 1.
\<close>

definition grid_main :: "file_system \<Rightarrow> grid_args \<Rightarrow> run_result" where
  "grid_main fs args =
     (let ctau_list = parse_ctau_list (g_ctaus args);
          decay_types = grid_decay_types args;
          (raised, histograms, valid_labels, msgs) = load_all fs args decay_types ctau_list
      in case raised of
           Some e \<Rightarrow> \<lparr>exit_code = 1, outputs = [], console = msgs\<rparr>
         | None \<Rightarrow>
             if length histograms = 0
             then \<lparr>exit_code = 1, outputs = [], console = msgs @ [Error_NoneLoaded]\<rparr>
             else
               (case create_2d_histogram (map Some histograms) valid_labels (g_hist_name args) of
                  Inl e \<Rightarrow> \<lparr>exit_code = 1, outputs = [], console = msgs\<rparr>
                | Inr (None, m) \<Rightarrow>
                    \<lparr>exit_code = 1, outputs = [], console = msgs @ m @ [Error_2DFailed]\<rparr>
                | Inr (Some hist_2d, m) \<Rightarrow>
                    (let output_name =
                           (if g_output_name args \<noteq> [] then g_output_name args
                            else ''2D_'' @ g_hist_name args @ ''_gluino''
                                   @ str_int (g_gluino_mass args) @ ''_chi10''
                                   @ str_int (g_neutralino_mass args) @ ''_''
                                   @ (if length decay_types > 1 then ''both'' else hd decay_types)
                                   @ ''_'' @ join_str ''_'' ctau_list);
                         (files, m2) = save_2d_plot (Some hist_2d) output_name (g_log_scale_z args)
                     in \<lparr>exit_code = 0, outputs = files, console = msgs @ m @ m2\<rparr>)))"

subsection \<open>What the ratio builder's exit status is compared with\<close>

text \<open>
  \<open>ratio_try\<close> is the attempt of \<open>main\<close> (ratio.py) to load the histogram of one ctau
  value: the file name is built by \<open>construct_filename\<close> and given to \<open>load_histogram\<close>.
  It is \<open>None\<close> when the histogram cannot be loaded: the loader returns \<open>None\<close> or raises.
\<close>

definition ratio_try :: "file_system \<Rightarrow> ratio_args \<Rightarrow> string \<Rightarrow> TH1 option" where
  "ratio_try fs args ctau =
     (case ratio_load_histogram fs
             (ratio_construct_filename (r_gluino_mass args) (r_neutralino_mass args)
                ctau (r_decay_type args) (r_era args))
             (r_hist_name args) of
        Inl e \<Rightarrow> None
      | Inr (hist, msgs) \<Rightarrow> hist)"

subsection \<open>What the grid builder's loading loops are compared with\<close>

text \<open>
  \<open>grid_try\<close> is the attempt to load the histogram of one parameter point: the file name
  is built by \<open>construct_filename\<close> and given to \<open>load_histogram\<close> (2DHistogram.py); the
  messages are dropped. \<open>loaded_rows\<close> lists, for one decay type, the histograms that load,
  in the order of the ctau list, each with its generated label.
\<close>

definition grid_try :: "file_system \<Rightarrow> grid_args \<Rightarrow> string \<Rightarrow> string \<Rightarrow> py_error + TH1 option" where
  "grid_try fs args decay_type ctau =
     map_sum id fst
       (grid_load_histogram fs
          (grid_construct_filename (g_gluino_mass args) (g_neutralino_mass args)
             ctau decay_type (g_era args))
          (g_hist_name args))"

definition loaded_rows :: "file_system \<Rightarrow> grid_args \<Rightarrow> string \<Rightarrow> string list \<Rightarrow> (TH1 \<times> string) list" where
  "loaded_rows fs args decay_type ctau_list =
     concat (map (\<lambda>ctau. case grid_try fs args decay_type ctau of
                            Inr (Some h) \<Rightarrow> [(h, grid_label ctau decay_type)]
                          | _ \<Rightarrow> [])
                 ctau_list)"

subsection \<open>Example inputs\<close>

text \<open>
  Double-precision histograms with four bins for the ratio; single-precision cut-flow
  histograms; single-precision histograms with the bins 1 and 3; a double-precision
  histogram with the count 16777217; a double-precision histogram with 49 events.
\<close>

definition ex_num :: TH1 where
  "ex_num = \<lparr>th1_class = TH1D, th1_name = ''num'', th1_title = ''n'', th1_nbins = 4,
     th1_xmin = 0, th1_xmax = 4, th1_bins = [0, 1, 1/2, 1/4, 1, 3], th1_xlabels = Map.empty,
     th1_xtitle = []\<rparr>"

definition ex_den :: TH1 where
  "ex_den = \<lparr>th1_class = TH1D, th1_name = ''den'', th1_title = ''d'', th1_nbins = 4,
     th1_xmin = 0, th1_xmax = 4, th1_bins = [0, 1, 1/4, 1/8, 3, 0], th1_xlabels = Map.empty,
     th1_xtitle = []\<rparr>"

definition ex_counts :: TH1 where
  "ex_counts = \<lparr>th1_class = TH1F, th1_name = ''EventCutFlow'', th1_title = ''cut flow'',
     th1_nbins = 4, th1_xmin = 0, th1_xmax = 4, th1_bins = [0, 100, 50, 25, 10, 0],
     th1_xlabels = [1 \<mapsto> ''AllEvents''], th1_xtitle = []\<rparr>"

definition ex_empty :: TH1 where
  "ex_empty = \<lparr>th1_class = TH1F, th1_name = ''EventCutFlow'', th1_title = ''cut flow'',
     th1_nbins = 4, th1_xmin = 0, th1_xmax = 4, th1_bins = [0, 0, 7, 0, 0, 0],
     th1_xlabels = [1 \<mapsto> ''AllEvents''], th1_xtitle = []\<rparr>"

definition ex_one :: TH1 where
  "ex_one = \<lparr>th1_class = TH1F, th1_name = ''one'', th1_title = [], th1_nbins = 1,
     th1_xmin = 0, th1_xmax = 1, th1_bins = [0, 1, 0], th1_xlabels = Map.empty,
     th1_xtitle = []\<rparr>"

definition ex_three :: TH1 where
  "ex_three = \<lparr>th1_class = TH1F, th1_name = ''three'', th1_title = [], th1_nbins = 1,
     th1_xmin = 0, th1_xmax = 1, th1_bins = [0, 3, 0], th1_xlabels = Map.empty,
     th1_xtitle = []\<rparr>"

definition ex_big :: TH1 where
  "ex_big = \<lparr>th1_class = TH1D, th1_name = ''big'', th1_title = [], th1_nbins = 1,
     th1_xmin = 0, th1_xmax = 1, th1_bins = [0, 16777217, 0], th1_xlabels = Map.empty,
     th1_xtitle = []\<rparr>"

definition ex_49 :: TH1 where
  "ex_49 = \<lparr>th1_class = TH1D, th1_name = ''EventCutFlow'', th1_title = ''cut flow'',
     th1_nbins = 2, th1_xmin = 0, th1_xmax = 2, th1_bins = [0, 49, 7, 0],
     th1_xlabels = [1 \<mapsto> ''AllEvents''], th1_xtitle = []\<rparr>"

text \<open>
  A file system with four files: one holding the cut-flow histogram under the first
  directory, one holding a histogram with an empty first bin under the second directory,
  one that cannot be opened, one holding the histogram with 49 events.
\<close>

definition ex_fs :: file_system where
  "ex_fs = (\<lambda>f. Missing)
     (''a.root'' := RootFile [''HSCPMiniAODAnalyzer/EventCutFlow'' \<mapsto> ex_counts],
      ''b.root'' := RootFile [''HSCPFullAODAnalyzer/EventCutFlow'' \<mapsto> ex_empty],
      ''c.root'' := Unreadable,
      ''d.root'' := RootFile [''HSCPMiniAODAnalyzer/EventCutFlow'' \<mapsto> ex_49])"

text \<open>
  A run of the grid builder on two ctau values and both decay types. Of the four files,
  one is missing, one holds the histogram under the second directory only, and two hold
  it under the first directory.
\<close>

definition ex_grid_args :: grid_args where
  "ex_grid_args = \<lparr>g_hist_name = ''EventCutFlow'', g_gluino_mass = 1800,
     g_neutralino_mass = 1300, g_ctaus = ''1mm, 10mm'', g_decay_types = ''both'', g_era = ''E'',
     g_output_name = [], g_log_scale_z = True\<rparr>"

definition ex_grid_fs :: file_system where
  "ex_grid_fs = (\<lambda>f. Missing)
     (''gluino1800_chi101300_1mm_lightDecay_E.root'' :=
        RootFile [''HSCPMiniAODAnalyzer/EventCutFlow'' \<mapsto> ex_counts],
      ''gluino1800_chi101300_1mm_heavyDecay_E.root'' :=
        RootFile [''HSCPFullAODAnalyzer/EventCutFlow'' \<mapsto> ex_counts],
      ''gluino1800_chi101300_10mm_heavyDecay_E.root'' :=
        RootFile [''HSCPMiniAODAnalyzer/EventCutFlow'' \<mapsto> ex_empty])"

text \<open>The same files, with the file that was missing now present and impossible to open.\<close>

definition ex_grid_fs_unreadable :: file_system where
  "ex_grid_fs_unreadable =
     ex_grid_fs(''gluino1800_chi101300_10mm_lightDecay_E.root'' := Unreadable)"

text \<open>
  A run of the ratio builder on the two \<open>heavyDecay\<close> files of the example, and the values
  of Python's \<open>float\<close> on the pieces of the example's \<open>--y-range\<close> flags.
\<close>

definition ex_ratio_args :: ratio_args where
  "ex_ratio_args = \<lparr>r_hist_name = ''EventCutFlow'', r_gluino_mass = 1800,
     r_neutralino_mass = 1300, r_ctau1 = ''1mm'', r_ctau2 = ''10mm'',
     r_decay_type = ''heavyDecay'', r_era = ''E'', r_output_name = [], r_log_scale = False,
     r_y_range = ''1,0.5''\<rparr>"

definition ex_pyfloat :: "string \<Rightarrow> real option" where
  "ex_pyfloat s =
     (if s = ''1'' then Some 1 else if s = ''0.5'' then Some (1 / 2) else None)"

definition ex_ratio_args_missing :: ratio_args where
  "ex_ratio_args_missing = ex_ratio_args\<lparr>r_decay_type := ''lightDecay''\<rparr>"

definition ex_ratio_args_bad :: ratio_args where
  "ex_ratio_args_bad = ex_ratio_args\<lparr>r_y_range := ''1,abc''\<rparr>"

section \<open>Properties\<close>

subsection \<open>Rounding\<close>

lemma floor_log2_eq:
  assumes "2 powi k \<le> \<bar>x\<bar>" and "\<bar>x\<bar> < 2 powi (k + 1)"
  shows "\<lfloor>log 2 \<bar>x\<bar>\<rfloor> = k"
proof -
  have pos: "0 < \<bar>x\<bar>" using assms(1) zero_less_power_int [of "2::real" k] by linarith
  have a: "(2::real) powr (of_int k) = 2 powi k" by (rule powr_real_of_int') simp_all
  have b: "(2::real) powr (of_int (k + 1)) = 2 powi (k + 1)" by (rule powr_real_of_int') simp_all
  from assms a b have "2 powr (of_int k) \<le> \<bar>x\<bar> \<and> \<bar>x\<bar> < 2 powr (of_int k + 1)"
    by simp
  with floor_log_eq_powr_iff [of "\<bar>x\<bar>" 2 k] pos show ?thesis by simp
qed

lemma round_float_eval:
  assumes "2 powi k \<le> \<bar>x\<bar>" and "\<bar>x\<bar> < 2 powi (k + 1)"
  shows "round_float p emin x =
     of_int (round_half_even (x / 2 powi (max (k - int p + 1) emin)))
       * 2 powi (max (k - int p + 1) emin)"
proof -
  have "0 < \<bar>x\<bar>" using assms(1) zero_less_power_int [of "2::real" k] by linarith
  then have "x \<noteq> 0" by auto
  then show ?thesis
    by (simp add: round_float_def Let_def floor_log2_eq [OF assms])
qed

lemma round_half_even_error: "\<bar>of_int (round_half_even y) - y\<bar> \<le> 1 / 2"
proof -
  have "of_int \<lfloor>y\<rfloor> \<le> y" "y < of_int \<lfloor>y\<rfloor> + 1" by linarith+
  then show ?thesis
    by (auto simp: round_half_even_def Let_def)
qed

lemma round_half_even_int: "round_half_even (of_int n) = n"
  by (simp add: round_half_even_def Let_def)

lemma round_half_even_mono: "x \<le> y \<Longrightarrow> round_half_even x \<le> round_half_even y"
proof -
  assume xy: "x \<le> y"
  then have f: "\<lfloor>x\<rfloor> \<le> \<lfloor>y\<rfloor>" by (rule floor_mono)
  have bx: "of_int \<lfloor>x\<rfloor> \<le> x" "x < of_int \<lfloor>x\<rfloor> + 1" by linarith+
  have by': "of_int \<lfloor>y\<rfloor> \<le> y" "y < of_int \<lfloor>y\<rfloor> + 1" by linarith+
  show ?thesis
  proof (cases "\<lfloor>x\<rfloor> = \<lfloor>y\<rfloor>")
    case True
    with xy show ?thesis by (auto simp: round_half_even_def Let_def)
  next
    case False
    with f have lt: "\<lfloor>x\<rfloor> + 1 \<le> \<lfloor>y\<rfloor>" by simp
    have "round_half_even x \<le> \<lfloor>x\<rfloor> + 1" by (auto simp: round_half_even_def Let_def)
    moreover have "\<lfloor>y\<rfloor> \<le> round_half_even y" by (auto simp: round_half_even_def Let_def)
    ultimately show ?thesis using lt by linarith
  qed
qed

lemma binade:
  assumes "x \<noteq> 0"
  shows "2 powi \<lfloor>log 2 \<bar>x\<bar>\<rfloor> \<le> \<bar>x\<bar>" and "\<bar>x\<bar> < 2 powi (\<lfloor>log 2 \<bar>x\<bar>\<rfloor> + 1)"
proof -
  let ?k = "\<lfloor>log 2 \<bar>x\<bar>\<rfloor>"
  from assms have pos: "0 < \<bar>x\<bar>" by simp
  have a: "(2::real) powr (of_int ?k) = 2 powi ?k" by (rule powr_real_of_int') simp_all
  have b: "(2::real) powr (of_int (?k + 1)) = 2 powi (?k + 1)" by (rule powr_real_of_int') simp_all
  from floor_log_eq_powr_iff [of "\<bar>x\<bar>" 2 ?k] pos
  have "2 powr (of_int ?k) \<le> \<bar>x\<bar> \<and> \<bar>x\<bar> < 2 powr (of_int ?k + 1)" by simp
  with a b show "2 powi ?k \<le> \<bar>x\<bar>" and "\<bar>x\<bar> < 2 powi (?k + 1)" by simp_all
qed

lemma round_float_error:
  assumes "2 powi k \<le> \<bar>x\<bar>" and "\<bar>x\<bar> < 2 powi (k + 1)" and "emin \<le> k - int p + 1"
  shows "\<bar>round_float p emin x - x\<bar> \<le> \<bar>x\<bar> * 2 powi (- int p)"
proof -
  define q where "q = k - int p + 1"
  have qpos: "0 < (2::real) powi q" by simp
  from assms(3) have m: "max (k - int p + 1) emin = q" by (simp add: q_def)
  have ev: "round_float p emin x = of_int (round_half_even (x / 2 powi q)) * 2 powi q"
    using round_float_eval [OF assms(1,2), of p emin] by (simp add: m)
  have "\<bar>of_int (round_half_even (x / 2 powi q)) * 2 powi q - x\<bar>
      = \<bar>of_int (round_half_even (x / 2 powi q)) - x / 2 powi q\<bar> * 2 powi q"
  proof -
    have "of_int (round_half_even (x / 2 powi q)) * 2 powi q - x
      = (of_int (round_half_even (x / 2 powi q)) - x / 2 powi q) * 2 powi q"
      using qpos by (simp add: field_simps)
    then show ?thesis using qpos by (simp add: abs_mult)
  qed
  also have "\<dots> \<le> (1 / 2) * 2 powi q"
    using round_half_even_error [of "x / 2 powi q"] qpos by (simp add: mult_right_mono)
  also have "(1 / 2) * 2 powi q = (2::real) powi k * 2 powi (- int p)"
    by (simp add: q_def power_int_add power_int_diff power_int_minus field_simps)
  also have "\<dots> \<le> \<bar>x\<bar> * 2 powi (- int p)"
    using assms(1) by (simp add: mult_right_mono)
  finally show ?thesis by (simp add: ev)
qed

lemma double_round_error:
  assumes "2 powi (- 1022) \<le> \<bar>x\<bar>"
  shows "\<bar>double_round x - x\<bar> \<le> \<bar>x\<bar> * 2 powi (- 53)"
proof -
  from assms have nz: "x \<noteq> 0"
    using zero_less_power_int [of "2::real" "- 1022"] by auto
  let ?k = "\<lfloor>log 2 \<bar>x\<bar>\<rfloor>"
  note b = binade [OF nz]
  have "- 1022 \<le> ?k"
  proof (rule ccontr)
    assume "\<not> - 1022 \<le> ?k"
    then have "?k + 1 \<le> - 1022" by linarith
    then have "(2::real) powi (?k + 1) \<le> 2 powi (- 1022)"
      by (intro power_int_increasing) simp_all
    with b(2) assms show False by linarith
  qed
  then have "- 1074 \<le> ?k - int 53 + 1" by linarith
  from round_float_error [OF b this] show ?thesis by (simp add: double_round_def)
qed

lemma round_half_even_between:
  assumes "of_int n \<le> z" and "z < of_int n + 1"
  shows "round_half_even z = n \<or> round_half_even z = n + 1"
proof -
  from assms have "\<lfloor>z\<rfloor> = n" by (simp only: floor_unique)
  then show ?thesis by (auto simp: round_half_even_def Let_def)
qed

lemma round_half_even_lower_half:
  assumes "of_int n \<le> z" and "z \<le> of_int n + 1 / 2" and "even n"
  shows "round_half_even z = n"
proof -
  from assms have "\<lfloor>z\<rfloor> = n" by (intro floor_unique) simp_all
  with assms show ?thesis by (auto simp: round_half_even_def Let_def)
qed

lemma double_round_near_one:
  assumes "\<bar>y - 1\<bar> \<le> 2 powi (- 53)"
  shows "double_round y = 1 \<or> double_round y = 1 - 2 powi (- 53)"
proof (cases "1 \<le> y")
  case True
  with assms have hi: "y \<le> 1 + 1 / 2 ^ 53" by (simp add: power_int_minus field_simps)
  have "2 powi 0 \<le> \<bar>y\<bar>" "\<bar>y\<bar> < 2 powi (0 + 1)" using True hi by simp_all
  from round_float_eval [OF this, of 53 "- 1074"]
  have ev: "double_round y = of_int (round_half_even (y * 2 ^ 52)) / 2 ^ 52"
    by (simp add: double_round_def power_int_minus field_simps)
  have lo: "real_of_int (2 ^ 52) \<le> y * 2 ^ 52" using True by simp
  have up: "y * 2 ^ 52 \<le> real_of_int (2 ^ 52) + 1 / 2" using hi by (simp add: field_simps)
  have "round_half_even (y * 2 ^ 52) = 2 ^ 52"
    by (rule round_half_even_lower_half [OF lo up]) simp
  with ev show ?thesis by simp
next
  case False
  with assms have lo: "1 - 1 / 2 ^ 53 \<le> y" and hi: "y < 1"
    by (simp_all add: power_int_minus field_simps)
  have h: "(1::real) / 2 \<le> 1 - 1 / 2 ^ 53" by simp
  have "2 powi (- 1) \<le> \<bar>y\<bar>" "\<bar>y\<bar> < 2 powi (- 1 + 1)" using lo hi h by (simp_all add: power_int_minus)
  from round_float_eval [OF this, of 53 "- 1074"]
  have ev: "double_round y = of_int (round_half_even (y * 2 ^ 53)) / 2 ^ 53"
    by (simp add: double_round_def power_int_minus field_simps)
  have lo': "real_of_int (2 ^ 53 - 1) \<le> y * 2 ^ 53" using lo by (simp add: field_simps)
  have up': "y * 2 ^ 53 < real_of_int (2 ^ 53 - 1) + 1" using hi by simp
  from round_half_even_between [OF lo' up']
  have "round_half_even (y * 2 ^ 53) = 2 ^ 53 - 1 \<or> round_half_even (y * 2 ^ 53) = 2 ^ 53"
    by simp
  with ev show ?thesis by (auto simp: power_int_minus field_simps)
qed

lemma normalized_first_bin:
  assumes "2 powi (- 1022) \<le> V" and "V \<le> 2 powi 1022"
  shows "double_round (double_round (1 / V) * V) = 1
         \<or> double_round (double_round (1 / V) * V) = 1 - 2 powi (- 53)"
proof -
  have Vpos: "0 < V" using assms(1) zero_less_power_int [of "2::real" "- 1022"] by linarith
  have "2 powi (- 1022) \<le> 1 / V"
  proof -
    have "1 / (2::real) powi 1022 \<le> 1 / V" using assms(2) Vpos by (simp add: frac_le)
    then show ?thesis by (simp add: power_int_minus field_simps)
  qed
  then have "2 powi (- 1022) \<le> \<bar>1 / V\<bar>" using Vpos by simp
  from double_round_error [OF this]
  have e: "\<bar>double_round (1 / V) - 1 / V\<bar> \<le> (1 / V) * 2 powi (- 53)" using Vpos by simp
  have "\<bar>double_round (1 / V) * V - 1\<bar> = \<bar>double_round (1 / V) - 1 / V\<bar> * V"
  proof -
    have "double_round (1 / V) * V - 1 = (double_round (1 / V) - 1 / V) * V"
      using Vpos by (simp add: field_simps)
    then show ?thesis using Vpos by (simp add: abs_mult)
  qed
  also have "\<dots> \<le> ((1 / V) * 2 powi (- 53)) * V"
    by (rule mult_right_mono [OF e]) (use Vpos in simp)
  also have "\<dots> = 2 powi (- 53)" using Vpos by simp
  finally show ?thesis by (rule double_round_near_one)
qed

lemma single_round_near_one:
  "single_round 1 = 1" "single_round (1 - 2 powi (- 53)) = 1"
proof -
  show "single_round 1 = 1"
    using round_float_eval [of 0 1 24 "- 149"]
    by (simp add: single_round_def round_half_even_def Let_def power_int_minus)
  show "single_round (1 - 2 powi (- 53)) = 1"
    using round_float_eval [of "- 1" "1 - 2 powi (- 53)" 24 "- 149"]
    by (simp add: single_round_def round_half_even_def Let_def power_int_minus)
qed

lemma round_half_even_scaled_int:
  assumes "q \<le> 0"
  shows "of_int (round_half_even (of_int n / 2 powi q)) * 2 powi q = (of_int n :: real)"
proof -
  have "(of_int n :: real) / 2 powi q = of_int (n * 2 ^ nat (- q))"
    using assms by (simp add: power_int_def field_simps)
  then have "round_half_even (of_int n / 2 powi q) = n * 2 ^ nat (- q)"
    by (simp only: round_half_even_int)
  then show ?thesis using assms by (simp add: power_int_def field_simps)
qed

text \<open>A whole number below \<open>2 ^ p\<close> in magnitude is a floating-point number of \<open>p\<close> bits.\<close>

lemma round_float_int:
  assumes "\<bar>n\<bar> < 2 ^ p" and "emin \<le> 0" and "0 < p"
  shows "round_float p emin (of_int n) = of_int n"
proof (cases "n = 0")
  case True
  then show ?thesis by (simp add: round_float_def)
next
  case False
  then have nz: "(of_int n :: real) \<noteq> 0" by simp
  let ?k = "\<lfloor>log 2 \<bar>real_of_int n\<bar>\<rfloor>"
  note b = binade [OF nz]
  have "?k < int p"
  proof (rule ccontr)
    assume "\<not> ?k < int p"
    then have "int p \<le> ?k" by linarith
    then have "(2::real) powi (int p) \<le> 2 powi ?k" by (intro power_int_increasing) simp_all
    with b(1) have "(2::real) ^ p \<le> \<bar>real_of_int n\<bar>" by simp
    moreover from assms(1) have "\<bar>real_of_int n\<bar> < 2 ^ p"
      by (metis of_int_abs of_int_less_numeral_power_cancel_iff)
    ultimately show False by linarith
  qed
  then have "max (?k - int p + 1) emin \<le> 0" using assms(2) by linarith
  from round_half_even_scaled_int [OF this, of n] nz show ?thesis
    by (simp add: round_float_def Let_def)
qed

lemma single_round_int:
  assumes "\<bar>n\<bar> < 2 ^ 24"
  shows "single_round (of_int n) = of_int n"
proof -
  have "round_float 24 (- 149) (of_int n) = of_int n"
    by (rule round_float_int [OF assms]) simp_all
  then show ?thesis by (simp only: single_round_def)
qed

lemma double_round_int:
  assumes "\<bar>n\<bar> < 2 ^ 53"
  shows "double_round (of_int n) = of_int n"
proof -
  have "round_float 53 (- 1074) (of_int n) = of_int n"
    by (rule round_float_int [OF assms]) simp_all
  then show ?thesis by (simp only: double_round_def)
qed

lemma round_float_0: "round_float p emin 0 = 0"
  by (simp add: round_float_def)

lemma store_cell_0: "store_cell cls 0 = 0"
  by (cases cls) (simp_all add: store_cell_def single_round_def round_float_0 int_truncate_def)

lemma double_round_0: "double_round 0 = 0"
  by (simp add: double_round_def round_float_0)




lemma ex_single_16777217: "single_round 16777217 = 16777216"
  using round_float_eval [of 24 16777217 24 "- 149"]
  by (simp add: single_round_def round_half_even_def Let_def)

lemma ex_third: "double_round (1 / 3) = 6004799503160661 / 2 ^ 54"
  using round_float_eval [of "-2" "1/3" 53 "- 1074"]
  by (simp add: double_round_def round_half_even_def Let_def power_int_minus)

lemma ex_single_third: "single_round (double_round (1 / 3)) = 11184811 / 2 ^ 25"
  unfolding ex_third
  using round_float_eval [of "-2" "6004799503160661 / 2 ^ 54" 24 "- 149"]
  by (simp add: single_round_def round_half_even_def Let_def power_int_minus)

subsection \<open>Reading cells\<close>

lemma GetBinContent_Clone: "GetBinContent (Clone h n) i = GetBinContent h i"
  by (simp add: GetBinContent_def Clone_def)

lemma clamp_in_cells: "xs \<noteq> [] \<Longrightarrow> min i (length xs - 1) < length xs"
  by (cases xs) auto

lemma GetBinContent_Scale:
  "GetBinContent (Scale h c) i = store_cell (th1_class h) (double_round (c * GetBinContent h i))"
  using clamp_in_cells [of "th1_bins h" i]
  by (simp add: GetBinContent_def Scale_def store_cell_0 double_round_0)

lemma GetBinContent_Divide:
  assumes "length (th1_bins h) = length (th1_bins h1)"
  shows "GetBinContent (Divide h h1) i =
           (if GetBinContent h1 i \<noteq> 0
            then store_cell (th1_class h) (double_round (GetBinContent h i / GetBinContent h1 i))
            else 0)"
proof (cases "th1_bins h = []")
  case True
  with assms show ?thesis by (simp add: GetBinContent_def Divide_def)
next
  case False
  with assms have ne: "th1_bins h1 \<noteq> []" by auto
  let ?k = "min i (length (th1_bins h) - 1)"
  from False have k: "?k < length (th1_bins h)" by (cases "th1_bins h") auto
  with assms have k1: "?k < length (th1_bins h1)" by simp
  from False ne assms k k1 show ?thesis
    by (simp add: GetBinContent_def Divide_def)
qed

lemma Scale_fields: "th1_name (Scale h c) = th1_name h" "th1_class (Scale h c) = th1_class h"
  by (simp_all add: Scale_def)


subsection \<open>The normalisation step of the ratio builder\<close>

lemma normalize_positive:
  assumes "GetBinContent h 1 = V" and "V > 0"
  shows "normalize_hist h full filename = (Scale h (double_round (1 / V)), [])"
  using assms by (simp add: normalize_hist_def Let_def)

lemma normalize_not_positive:
  assumes "GetBinContent h 1 \<le> 0"
  shows "normalize_hist h full filename = (h, [Warning_ZeroEvents full filename])"
  using assms by (simp add: normalize_hist_def Let_def)

text \<open>
  When the file opens and the histogram is found under one of the two directories, the
  ratio builder's loader returns the normalised clone and the messages of the
  normalisation.
\<close>

lemma ratio_load_found:
  assumes "fs filename = RootFile root_file"
    and "root_file (''HSCPMiniAODAnalyzer/'' @ hist_name) = Some h
         \<or> (root_file (''HSCPMiniAODAnalyzer/'' @ hist_name) = None
            \<and> root_file (''HSCPFullAODAnalyzer/'' @ hist_name) = Some h)"
  shows "\<exists>full. ratio_load_histogram fs filename hist_name =
           Inr (Some (fst (normalize_hist
                         (Clone h (hist_name @ ''_'' @ replace_str ''.root'' [] filename))
                         full filename)),
            snd (normalize_hist
                   (Clone h (hist_name @ ''_'' @ replace_str ''.root'' [] filename))
                   full filename))"
  using assms(2)
proof
  assume "root_file (''HSCPMiniAODAnalyzer/'' @ hist_name) = Some h"
  with assms(1) have "ratio_load_histogram fs filename hist_name =
           Inr (Some (fst (normalize_hist
                         (Clone h (hist_name @ ''_'' @ replace_str ''.root'' [] filename))
                         (''HSCPMiniAODAnalyzer/'' @ hist_name) filename)),
            snd (normalize_hist
                   (Clone h (hist_name @ ''_'' @ replace_str ''.root'' [] filename))
                   (''HSCPMiniAODAnalyzer/'' @ hist_name) filename))"
    by (simp add: ratio_load_histogram_def TFile_Open_def Let_def split_beta)
  then show ?thesis ..
next
  assume "root_file (''HSCPMiniAODAnalyzer/'' @ hist_name) = None
            \<and> root_file (''HSCPFullAODAnalyzer/'' @ hist_name) = Some h"
  with assms(1) have "ratio_load_histogram fs filename hist_name =
           Inr (Some (fst (normalize_hist
                         (Clone h (hist_name @ ''_'' @ replace_str ''.root'' [] filename))
                         (''HSCPFullAODAnalyzer/'' @ hist_name) filename)),
            snd (normalize_hist
                   (Clone h (hist_name @ ''_'' @ replace_str ''.root'' [] filename))
                   (''HSCPFullAODAnalyzer/'' @ hist_name) filename))"
    by (simp add: ratio_load_histogram_def TFile_Open_def Let_def split_beta)
  then show ?thesis ..
qed




text \<open>
  Claim C4. A histogram whose first bin is 0 is loaded by the ratio builder with every
  cell as it is in the file and with the warning that it cannot be normalised; the
  loader returns a result and raises nothing.
\<close>

theorem normalize_first_bin_zero:
  assumes "fs filename = RootFile root_file"
    and "root_file (''HSCPMiniAODAnalyzer/'' @ hist_name) = Some h
         \<or> (root_file (''HSCPMiniAODAnalyzer/'' @ hist_name) = None
            \<and> root_file (''HSCPFullAODAnalyzer/'' @ hist_name) = Some h)"
    and "GetBinContent h 1 = 0"
  shows "\<exists>r full. ratio_load_histogram fs filename hist_name
                     = Inr (Some r, [Warning_ZeroEvents full filename])
          \<and> th1_bins r = th1_bins h"
proof -
  let ?c = "Clone h (hist_name @ ''_'' @ replace_str ''.root'' [] filename)"
  from assms(3) have c1: "GetBinContent ?c 1 \<le> 0" by (simp add: GetBinContent_Clone)
  from ratio_load_found [of fs filename root_file hist_name h, OF assms(1,2)] obtain full where
    "ratio_load_histogram fs filename hist_name =
       Inr (Some (fst (normalize_hist ?c full filename)), snd (normalize_hist ?c full filename))" ..
  then have "ratio_load_histogram fs filename hist_name
               = Inr (Some ?c, [Warning_ZeroEvents full filename])"
    by (simp only: normalize_not_positive [OF c1] fst_conv snd_conv)
  moreover have "th1_bins ?c = th1_bins h" by (simp add: Clone_def)
  ultimately show ?thesis by blast
qed

theorem normalize_first_bin_zero_witness:
  "ex_fs ''b.root'' = RootFile [''HSCPFullAODAnalyzer/EventCutFlow'' \<mapsto> ex_empty]
   \<and> GetBinContent ex_empty 1 = 0
   \<and> (\<exists>r full. ratio_load_histogram ex_fs ''b.root'' ''EventCutFlow''
                   = Inr (Some r, [Warning_ZeroEvents full ''b.root''])
        \<and> th1_bins r = [0, 0, 7, 0, 0, 0])"
proof -
  have a: "ex_fs ''b.root'' = RootFile [''HSCPFullAODAnalyzer/EventCutFlow'' \<mapsto> ex_empty]"
    by (simp add: ex_fs_def)
  have b: "P \<or> ([''HSCPFullAODAnalyzer/EventCutFlow'' \<mapsto> ex_empty]
                    (''HSCPMiniAODAnalyzer/'' @ ''EventCutFlow'') = None
      \<and> [''HSCPFullAODAnalyzer/EventCutFlow'' \<mapsto> ex_empty]
            (''HSCPFullAODAnalyzer/'' @ ''EventCutFlow'') = Some ex_empty)" for P
    by simp
  have c: "GetBinContent ex_empty 1 = 0" by (simp add: GetBinContent_def ex_empty_def)
  have e: "th1_bins ex_empty = [0, 0, 7, 0, 0, 0]" by (simp add: ex_empty_def)
  from normalize_first_bin_zero [of ex_fs "''b.root''" _ "''EventCutFlow''" ex_empty, OF a b c]
    a c e
  show ?thesis by simp
qed

subsection \<open>The ratio histogram\<close>

lemma create_ratio_plot_cells:
  assumes "wf_TH1 h1" and "wf_TH1 h2" and "th1_nbins h1 = th1_nbins h2"
  shows "\<exists>ratio. create_ratio_plot (Some h1) (Some h2) title = (Some ratio, [])
           \<and> th1_nbins ratio = th1_nbins h1
           \<and> (\<forall>i. GetBinContent ratio i =
                 (if GetBinContent h2 i \<noteq> 0
                  then store_cell (th1_class h1)
                         (double_round (GetBinContent h1 i / GetBinContent h2 i))
                  else 0))"
proof -
  let ?c = "SetTitle (Clone h1 (''ratio_'' @ th1_name h1 @ ''_'' @ th1_name h2)) title"
  from assms have len: "length (th1_bins ?c) = length (th1_bins h2)"
    by (simp add: wf_TH1_def SetTitle_def Clone_def)
  have same: "GetBinContent ?c i = GetBinContent h1 i" for i
    by (simp add: GetBinContent_def SetTitle_def Clone_def)
  have cls: "th1_class ?c = th1_class h1"
    by (simp add: SetTitle_def Clone_def)
  have nb: "th1_nbins (Divide ?c h2) = th1_nbins h1"
    by (simp add: Divide_def SetTitle_def Clone_def)
  have res: "create_ratio_plot (Some h1) (Some h2) title = (Some (Divide ?c h2), [])"
    by (simp add: create_ratio_plot_def Let_def)
  have "GetBinContent (Divide ?c h2) i =
                 (if GetBinContent h2 i \<noteq> 0
                  then store_cell (th1_class h1)
                         (double_round (GetBinContent h1 i / GetBinContent h2 i))
                  else 0)" for i
    by (simp only: GetBinContent_Divide [OF len] same cls)
  with res nb show ?thesis by blast
qed

text \<open>
  Claim C1, as stated, fails: for two single-precision histograms with 1 and 3 in bin 1,
  the ratio histogram holds in bin 1 the single-precision number nearest to the quotient,
  which is neither the quotient of the two bins in double precision nor one third.
\<close>

theorem ratio_bins_counterexample:
  "wf_TH1 ex_one \<and> wf_TH1 ex_three \<and> th1_nbins ex_one = th1_nbins ex_three
   \<and> GetBinContent ex_one 1 = 1 \<and> GetBinContent ex_three 1 = 3
   \<and> (\<exists>ratio. create_ratio_plot (Some ex_one) (Some ex_three) ''Ratio Plot'' = (Some ratio, [])
        \<and> GetBinContent ratio 1 = 11184811 / 2 ^ 25
        \<and> GetBinContent ratio 1 \<noteq> double_round (1 / 3)
        \<and> GetBinContent ratio 1 \<noteq> 1 / 3)"
proof -
  have a: "wf_TH1 ex_one" "wf_TH1 ex_three" "th1_nbins ex_one = th1_nbins ex_three"
    by (simp_all add: wf_TH1_def ex_one_def ex_three_def)
  have c: "GetBinContent ex_one 1 = 1" "GetBinContent ex_three 1 = 3" "th1_class ex_one = TH1F"
    by (simp_all add: GetBinContent_def ex_one_def ex_three_def)
  from create_ratio_plot_cells [OF a, of "''Ratio Plot''"] obtain ratio where
    r: "create_ratio_plot (Some ex_one) (Some ex_three) ''Ratio Plot'' = (Some ratio, [])"
    and v: "\<And>i. GetBinContent ratio i =
                 (if GetBinContent ex_three i \<noteq> 0
                  then store_cell (th1_class ex_one)
                         (double_round (GetBinContent ex_one i / GetBinContent ex_three i))
                  else 0)"
    by blast
  from v [of 1] c have "GetBinContent ratio 1 = single_round (double_round (1 / 3))"
    by (simp add: store_cell_def)
  then have e: "GetBinContent ratio 1 = 11184811 / 2 ^ 25"
    by (simp only: ex_single_third)
  then have "GetBinContent ratio 1 \<noteq> double_round (1 / 3)" "GetBinContent ratio 1 \<noteq> 1 / 3"
    by (simp_all add: ex_third)
  with a c r e show ?thesis by blast
qed

text \<open>
  Claim C1, amended. For two histograms with the same binning whose quotients do not
  exceed the capacity of the numerator's class, \<open>create_ratio_plot\<close> returns a histogram
  with that binning in which every cell is 0 where the denominator's cell is 0, and
  elsewhere the numerator's cell divided by the denominator's in double precision,
  written to a cell of the numerator's class. For a double-precision numerator that is
  the quotient of the two bins as the machine computes it.
\<close>

theorem ratio_bins:
  assumes "wf_TH1 h1" and "wf_TH1 h2" and "th1_nbins h1 = th1_nbins h2"
    and "\<forall>i. GetBinContent h2 i \<noteq> 0
           \<longrightarrow> \<bar>GetBinContent h1 i / GetBinContent h2 i\<bar> \<le> capacity (th1_class h1)"
  shows "\<exists>ratio. create_ratio_plot (Some h1) (Some h2) title = (Some ratio, [])
           \<and> th1_nbins ratio = th1_nbins h1
           \<and> (\<forall>i. GetBinContent ratio i =
                 (if GetBinContent h2 i \<noteq> 0
                  then store_cell (th1_class h1)
                         (double_round (GetBinContent h1 i / GetBinContent h2 i))
                  else 0))
           \<and> (th1_class h1 = TH1D \<longrightarrow>
                (\<forall>i. GetBinContent ratio i =
                   (if GetBinContent h2 i \<noteq> 0
                    then double_round (GetBinContent h1 i / GetBinContent h2 i)
                    else 0)))"
proof -
  from create_ratio_plot_cells [OF assms(1,2,3), of title] obtain ratio where
    r: "create_ratio_plot (Some h1) (Some h2) title = (Some ratio, [])"
       "th1_nbins ratio = th1_nbins h1"
    and v: "\<forall>i. GetBinContent ratio i =
                 (if GetBinContent h2 i \<noteq> 0
                  then store_cell (th1_class h1)
                         (double_round (GetBinContent h1 i / GetBinContent h2 i))
                  else 0)"
    by blast
  have "th1_class h1 = TH1D \<longrightarrow>
                (\<forall>i. GetBinContent ratio i =
                   (if GetBinContent h2 i \<noteq> 0
                    then double_round (GetBinContent h1 i / GetBinContent h2 i)
                    else 0))"
    using v by (simp add: store_cell_def)
  with r v show ?thesis by blast
qed

theorem ratio_bins_witness:
  "wf_TH1 ex_num \<and> wf_TH1 ex_den \<and> th1_nbins ex_num = th1_nbins ex_den
   \<and> th1_class ex_num = TH1D
   \<and> (\<exists>ratio. create_ratio_plot (Some ex_num) (Some ex_den) ''Ratio Plot'' = (Some ratio, [])
        \<and> GetBinContent ratio 1 = 1 \<and> GetBinContent ratio 2 = 2
        \<and> GetBinContent ratio 3 = 2 \<and> GetBinContent ratio 4 = 6004799503160661 / 2 ^ 54
        \<and> GetBinContent ratio 5 = 0)"
proof -
  have a: "wf_TH1 ex_num" by (simp add: wf_TH1_def ex_num_def)
  have b: "wf_TH1 ex_den" by (simp add: wf_TH1_def ex_den_def)
  have c: "th1_nbins ex_num = th1_nbins ex_den" by (simp add: ex_num_def ex_den_def)
  have cls: "th1_class ex_num = TH1D" by (simp add: ex_num_def)
  have n: "GetBinContent ex_num i = [0, 1, 1/2, 1/4, 1, 3] ! min i 5" for i
    by (simp add: GetBinContent_def ex_num_def eval_nat_numeral)
  have d: "GetBinContent ex_den i = [0, 1, 1/4, 1/8, 3, 0] ! min i 5" for i
    by (simp add: GetBinContent_def ex_den_def eval_nat_numeral)
  have cap: "\<forall>i. GetBinContent ex_den i \<noteq> 0
           \<longrightarrow> \<bar>GetBinContent ex_num i / GetBinContent ex_den i\<bar> \<le> capacity (th1_class ex_num)"
  proof (intro allI impI)
    fix i :: nat
    have "min i 5 = 0 \<or> min i 5 = 1 \<or> min i 5 = 2 \<or> min i 5 = 3 \<or> min i 5 = 4 \<or> min i 5 = 5"
      by linarith
    then show "\<bar>GetBinContent ex_num i / GetBinContent ex_den i\<bar> \<le> capacity (th1_class ex_num)"
      unfolding n d cls by (auto simp: capacity_def)
  qed
  have i1: "double_round 1 = 1" using double_round_int [of 1] by simp
  have i2: "double_round 2 = 2" using double_round_int [of 2] by simp
  from ratio_bins [OF a b c cap, of "''Ratio Plot''"] cls obtain ratio where
    r: "create_ratio_plot (Some ex_num) (Some ex_den) ''Ratio Plot'' = (Some ratio, [])"
    and v: "\<And>i. GetBinContent ratio i =
                 (if GetBinContent ex_den i \<noteq> 0
                  then double_round (GetBinContent ex_num i / GetBinContent ex_den i) else 0)"
    by blast
  have "GetBinContent ratio 1 = 1" "GetBinContent ratio 2 = 2" "GetBinContent ratio 3 = 2"
    "GetBinContent ratio 4 = 6004799503160661 / 2 ^ 54" "GetBinContent ratio 5 = 0"
    using v [of 1] v [of 2] v [of 3] v [of 4] v [of 5]
    by (simp_all add: n d i1 i2 ex_third)
  with a b c cls r show ?thesis by blast
qed

subsection \<open>The grid histogram\<close>

lemma SetBinContent2_fields:
  "th2_nbinsx (SetBinContent2 g x y c) = th2_nbinsx g"
  "th2_nbinsy (SetBinContent2 g x y c) = th2_nbinsy g"
  "th2_xlabels (SetBinContent2 g x y c) = th2_xlabels g"
  "th2_ylabels (SetBinContent2 g x y c) = th2_ylabels g"
  by (simp_all add: SetBinContent2_def)

lemma copy_x_label_fields:
  "th2_nbinsx (copy_x_label f x g) = th2_nbinsx g"
  "th2_nbinsy (copy_x_label f x g) = th2_nbinsy g"
  "th2_cells (copy_x_label f x g) = th2_cells g"
  "th2_ylabels (copy_x_label f x g) = th2_ylabels g"
  by (simp_all add: copy_x_label_def Let_def)

lemma fold_copy_x_label_fields:
  "th2_nbinsx (fold (copy_x_label f) xs g) = th2_nbinsx g
   \<and> th2_nbinsy (fold (copy_x_label f) xs g) = th2_nbinsy g
   \<and> th2_cells (fold (copy_x_label f) xs g) = th2_cells g
   \<and> th2_ylabels (fold (copy_x_label f) xs g) = th2_ylabels g"
  by (induction xs arbitrary: g) (simp_all add: copy_x_label_fields)

lemma set_y_label_fields:
  "th2_nbinsx (set_y_label p g) = th2_nbinsx g"
  "th2_nbinsy (set_y_label p g) = th2_nbinsy g"
  "th2_cells (set_y_label p g) = th2_cells g"
  by (simp_all add: set_y_label_def split_beta)

lemma fold_set_y_label_fields:
  "th2_nbinsx (fold set_y_label ps g) = th2_nbinsx g
   \<and> th2_nbinsy (fold set_y_label ps g) = th2_nbinsy g
   \<and> th2_cells (fold set_y_label ps g) = th2_cells g"
  by (induction ps arbitrary: g) (simp_all add: set_y_label_fields)

lemma fold_set_y_label_labels:
  "n + length labels \<le> th2_nbinsy g \<Longrightarrow>
   th2_ylabels (fold set_y_label (enumerate n labels) g) b =
     (if n < b \<and> b \<le> n + length labels then Some (labels ! (b - n - 1)) else th2_ylabels g b)"
proof (induction labels arbitrary: n g)
  case Nil
  then show ?case by auto
next
  case (Cons l ls)
  let ?g = "set_y_label (n, l) g"
  from Cons.prems have le: "Suc n + length ls \<le> th2_nbinsy ?g"
    by (simp add: set_y_label_fields)
  have lab: "th2_ylabels ?g = (th2_ylabels g)(n + 1 \<mapsto> l)"
    using Cons.prems by (simp add: set_y_label_def SetBinLabel_def)
  show ?case
  proof (cases "b = n + 1")
    case True
    then show ?thesis using Cons.IH [OF le] lab by simp
  next
    case False
    then show ?thesis using Cons.IH [OF le] lab
      by (auto simp: nth_Cons' )
  qed
qed

lemma SetBinContent2_cells:
  "GetBin g x y = p \<Longrightarrow>
   th2_cells (SetBinContent2 g x y v) = (th2_cells g)(p := single_round v)"
  by (simp add: SetBinContent2_def)

lemma fill_cells:
  "B \<le> th2_nbinsx g \<Longrightarrow> y \<le> th2_nbinsy g + 1 \<Longrightarrow>
   th2_cells (fold (\<lambda>x_bin g. SetBinContent2 g x_bin y (c x_bin)) [1..<B + 1] g) =
     (\<lambda>(j, y'). if y' = y \<and> 1 \<le> j \<and> j \<le> B then single_round (c j)
                 else th2_cells g (j, y'))
   \<and> th2_nbinsx (fold (\<lambda>x_bin g. SetBinContent2 g x_bin y (c x_bin)) [1..<B + 1] g) = th2_nbinsx g
   \<and> th2_nbinsy (fold (\<lambda>x_bin g. SetBinContent2 g x_bin y (c x_bin)) [1..<B + 1] g) = th2_nbinsy g
   \<and> th2_ylabels (fold (\<lambda>x_bin g. SetBinContent2 g x_bin y (c x_bin)) [1..<B + 1] g) = th2_ylabels g"
proof (induction B)
  case 0
  then show ?case by (auto simp: fun_eq_iff)
next
  case (Suc B)
  define f where "f = fold (\<lambda>x_bin g. SetBinContent2 g x_bin y (c x_bin)) [1..<B + 1] g"
  from Suc have IH: "th2_cells f =
     (\<lambda>(j, y'). if y' = y \<and> 1 \<le> j \<and> j \<le> B then single_round (c j)
                 else th2_cells g (j, y'))"
    "th2_nbinsx f = th2_nbinsx g" "th2_nbinsy f = th2_nbinsy g" "th2_ylabels f = th2_ylabels g"
    by (simp_all add: f_def)
  have unf: "fold (\<lambda>x_bin g. SetBinContent2 g x_bin y (c x_bin)) [1..<Suc B + 1] g
      = SetBinContent2 f (Suc B) y (c (Suc B))"
    by (simp add: f_def)
  have gb: "GetBin f (Suc B) y = (Suc B, y)"
    using Suc.prems IH by (simp add: GetBin_def)
  have "th2_cells (SetBinContent2 f (Suc B) y (c (Suc B))) =
      (\<lambda>(j, y'). if y' = y \<and> 1 \<le> j \<and> j \<le> B then single_round (c j)
                  else th2_cells g (j, y'))
        ((Suc B, y) := single_round (c (Suc B)))"
    by (simp only: SetBinContent2_cells [OF gb] IH(1))
  also have "\<dots> = (\<lambda>(j, y'). if y' = y \<and> 1 \<le> j \<and> j \<le> Suc B then single_round (c j)
                          else th2_cells g (j, y'))"
    by (auto simp: fun_eq_iff)
  finally show ?case
    unfolding unf by (simp add: SetBinContent2_fields IH)
qed

lemma fill_row_Some:
  assumes "B \<le> th2_nbinsx g" and "n + 1 \<le> th2_nbinsy g"
  shows "th2_cells (fill_row B (n, Some h) g) =
     (\<lambda>(j, y'). if y' = n + 1 \<and> 1 \<le> j \<and> j \<le> B then single_round (GetBinContent h j)
                 else th2_cells g (j, y'))"
    and "th2_nbinsx (fill_row B (n, Some h) g) = th2_nbinsx g"
    and "th2_nbinsy (fill_row B (n, Some h) g) = th2_nbinsy g"
    and "th2_ylabels (fill_row B (n, Some h) g) = th2_ylabels g"
  using fill_cells [of B g "n + 1" "GetBinContent h"] assms
  by (simp_all add: fill_row_def)

lemma fold_fill_row:
  "B \<le> th2_nbinsx g \<Longrightarrow> n + length hs \<le> th2_nbinsy g \<Longrightarrow>
   th2_cells (fold (fill_row B) (enumerate n (map Some hs)) g) =
     (\<lambda>(j, y'). if n < y' \<and> y' \<le> n + length hs \<and> 1 \<le> j \<and> j \<le> B
                 then single_round (GetBinContent (hs ! (y' - n - 1)) j)
                 else th2_cells g (j, y'))
   \<and> th2_nbinsx (fold (fill_row B) (enumerate n (map Some hs)) g) = th2_nbinsx g
   \<and> th2_nbinsy (fold (fill_row B) (enumerate n (map Some hs)) g) = th2_nbinsy g
   \<and> th2_ylabels (fold (fill_row B) (enumerate n (map Some hs)) g) = th2_ylabels g"
proof (induction hs arbitrary: n g)
  case Nil
  then show ?case by (auto simp: fun_eq_iff)
next
  case (Cons h hs)
  let ?g = "fill_row B (n, Some h) g"
  from Cons.prems have p: "B \<le> th2_nbinsx g" "n + 1 \<le> th2_nbinsy g" by simp_all
  note fr = fill_row_Some [OF p, of h]
  from Cons.prems fr have q: "B \<le> th2_nbinsx ?g" "Suc n + length hs \<le> th2_nbinsy ?g"
    by simp_all
  note IH = Cons.IH [OF q]
  show ?case
    using IH fr by (auto simp: fun_eq_iff nth_Cons')
qed

lemma create_2d_histogram_rows:
  assumes "hs \<noteq> []" and "length labels = length hs"
  shows "\<exists>g. create_2d_histogram (map Some hs) labels hist_name = Inr (Some g, [])
          \<and> th2_nbinsx g = (if th1_nbins (hd hs) = 0 then 1 else th1_nbins (hd hs))
          \<and> th2_nbinsy g = length hs
          \<and> (\<forall>k j. k < length hs \<longrightarrow> 1 \<le> j \<longrightarrow> j \<le> th1_nbins (hd hs)
                 \<longrightarrow> GetBinContent2 g j (k + 1) = single_round (GetBinContent (hs ! k) j))
          \<and> (\<forall>k. k < length hs \<longrightarrow> GetBinLabel (th2_ylabels g) (k + 1) = labels ! k)"
proof -
  from assms(1) obtain h0 hs' where hs: "hs = h0 # hs'" by (cases hs) auto
  define B where "B = th1_nbins h0"
  define g0 where "g0 = new_TH2F (''2D_'' @ hist_name) (''2D '' @ hist_name) B
                           (th1_xmin h0) (th1_xmax h0) (length hs) 0 (real (length hs))"
  define g1 where "g1 = fold (copy_x_label h0) [1..<B + 1] g0"
  define g2 where "g2 = fold set_y_label (enumerate 0 labels) g1"
  define g3 where "g3 = fold (fill_row B) (enumerate 0 (map Some hs)) g2"
  define g where "g = g3\<lparr>th2_xtitle := th1_xtitle h0, th2_ytitle := ''ctau [mm] (Decay Type)'',
                          th2_ztitle := ''Counts''\<rparr>"
  have res: "create_2d_histogram (map Some hs) labels hist_name = Inr (Some g, [])"
    by (simp add: create_2d_histogram_def hs Let_def GetNbinsX_def g_def g3_def g2_def g1_def
          g0_def B_def)
  have d0: "th2_nbinsx g0 = (if B = 0 then 1 else B)" "th2_nbinsy g0 = length hs"
    using hs by (simp_all add: g0_def new_TH2F_def)
  have d1: "th2_nbinsx g1 = (if B = 0 then 1 else B)" "th2_nbinsy g1 = length hs"
    using fold_copy_x_label_fields [of h0 "[1..<B + 1]" g0] d0 by (simp_all add: g1_def)
  have d2: "th2_nbinsx g2 = (if B = 0 then 1 else B)" "th2_nbinsy g2 = length hs"
    using fold_set_y_label_fields [of "enumerate 0 labels" g1] d1 by (simp_all add: g2_def)
  have l2: "th2_ylabels g2 b =
     (if 0 < b \<and> b \<le> 0 + length labels then Some (labels ! (b - 0 - 1)) else th2_ylabels g1 b)" for b
    unfolding g2_def
    by (rule fold_set_y_label_labels) (simp add: d1 assms(2))
  have f3: "th2_cells g3 =
     (\<lambda>(j, y'). if 0 < y' \<and> y' \<le> 0 + length hs \<and> 1 \<le> j \<and> j \<le> B
                 then single_round (GetBinContent (hs ! (y' - 0 - 1)) j)
                 else th2_cells g2 (j, y'))"
    "th2_nbinsx g3 = th2_nbinsx g2" "th2_nbinsy g3 = th2_nbinsy g2" "th2_ylabels g3 = th2_ylabels g2"
    using fold_fill_row [of B g2 0 hs] d2 by (simp_all add: g3_def)
  have dg: "th2_nbinsx g = (if B = 0 then 1 else B)" "th2_nbinsy g = length hs"
    using f3 d2 by (simp_all add: g_def)
  have cells: "GetBinContent2 g j (k + 1) = single_round (GetBinContent (hs ! k) j)"
    if "k < length hs" "1 \<le> j" "j \<le> B" for k j
  proof -
    from that dg have "GetBin g j (k + 1) = (j, k + 1)" by (simp add: GetBin_def)
    then have "GetBinContent2 g j (k + 1) = th2_cells g3 (j, k + 1)"
      by (simp add: GetBinContent2_def g_def)
    with that show ?thesis by (simp add: f3(1))
  qed
  have labs: "GetBinLabel (th2_ylabels g) (k + 1) = labels ! k" if "k < length hs" for k
  proof -
    have "th2_ylabels g (k + 1) = th2_ylabels g2 (k + 1)" by (simp add: g_def f3)
    with that assms(2) show ?thesis by (simp add: GetBinLabel_def l2)
  qed
  from res dg cells labs show ?thesis
    by (auto simp: B_def hs)
qed

text \<open>
  Claim C2, as stated, fails: the grid is a histogram with single-precision cells, and
  a double-precision input with the count 16777217 in bin 1 gives the cell 16777216.
\<close>

theorem grid_cells_counterexample:
  "wf_TH1 ex_big \<and> th1_nbins ex_big = 1 \<and> GetBinContent ex_big 1 = 16777217
   \<and> (\<exists>g. create_2d_histogram [Some ex_big] [''1 (L)''] ''EventCutFlow'' = Inr (Some g, [])
        \<and> GetBinContent2 g 1 1 = 16777216
        \<and> GetBinContent2 g 1 1 \<noteq> GetBinContent ex_big 1)"
proof -
  have w: "wf_TH1 ex_big" "th1_nbins ex_big = 1" "GetBinContent ex_big 1 = 16777217"
    by (simp_all add: wf_TH1_def ex_big_def GetBinContent_def)
  have n: "[ex_big] \<noteq> []" by simp
  have l: "length [''1 (L)''] = length [ex_big]" by simp
  from create_2d_histogram_rows [OF n l, of "''EventCutFlow''"] obtain g where
    g: "create_2d_histogram [Some ex_big] [''1 (L)''] ''EventCutFlow'' = Inr (Some g, [])"
    and cell: "\<And>k j. k < 1 \<Longrightarrow> 1 \<le> j \<Longrightarrow> j \<le> th1_nbins ex_big \<Longrightarrow>
          GetBinContent2 g j (k + 1) = single_round (GetBinContent ([ex_big] ! k) j)"
    by auto
  from cell [of 0 1] w have "GetBinContent2 g 1 1 = single_round 16777217" by simp
  then have "GetBinContent2 g 1 1 = 16777216" by (simp only: ex_single_16777217)
  with g w show ?thesis by auto
qed

text \<open>
  Claim C2, amended. For a non-empty list of \<open>N\<close> loaded histograms that all have \<open>B\<close> bins
  and hold no cell beyond \<open>2 ^ 127\<close> in magnitude (the range of single precision), with
  one label per histogram, \<open>create_2d_histogram\<close> returns a two-dimensional histogram with
  \<open>B\<close> columns and \<open>N\<close> rows; the cell in column \<open>j\<close> of row \<open>k + 1\<close> is bin \<open>j\<close> of histogram \<open>k\<close>
  of the list rounded to single precision (the bin itself when it is a single-precision
  number), and the Y label of row \<open>k + 1\<close> is label \<open>k\<close> of the list.
\<close>

theorem grid_rows:
  assumes "hs \<noteq> []" and "\<forall>h\<in>set hs. wf_TH1 h \<and> th1_nbins h = B"
    and "length labels = length hs"
    and "\<forall>h\<in>set hs. \<forall>c\<in>set (th1_bins h). \<bar>c\<bar> \<le> 2 ^ 127"
  shows "\<exists>g. create_2d_histogram (map Some hs) labels hist_name = Inr (Some g, [])
          \<and> th2_nbinsx g = B \<and> th2_nbinsy g = length hs
          \<and> (\<forall>k j. k < length hs \<longrightarrow> 1 \<le> j \<longrightarrow> j \<le> B
                 \<longrightarrow> GetBinContent2 g j (k + 1) = single_round (GetBinContent (hs ! k) j))
          \<and> (\<forall>k j. k < length hs \<longrightarrow> 1 \<le> j \<longrightarrow> j \<le> B
                 \<longrightarrow> single_round (GetBinContent (hs ! k) j) = GetBinContent (hs ! k) j
                 \<longrightarrow> GetBinContent2 g j (k + 1) = GetBinContent (hs ! k) j)
          \<and> (\<forall>k. k < length hs \<longrightarrow> GetBinLabel (th2_ylabels g) (k + 1) = labels ! k)"
proof -
  from assms(1) have "hd hs \<in> set hs" by simp
  with assms(2) have b: "th1_nbins (hd hs) = B" and "wf_TH1 (hd hs)" by auto
  then have "1 \<le> th1_nbins (hd hs)" by (simp add: wf_TH1_def)
  with create_2d_histogram_rows [OF assms(1) assms(3), of hist_name] b
  obtain g where g: "create_2d_histogram (map Some hs) labels hist_name = Inr (Some g, [])"
      "th2_nbinsx g = B" "th2_nbinsy g = length hs"
    and cells: "\<forall>k j. k < length hs \<longrightarrow> 1 \<le> j \<longrightarrow> j \<le> B
                 \<longrightarrow> GetBinContent2 g j (k + 1) = single_round (GetBinContent (hs ! k) j)"
    and labs: "\<forall>k. k < length hs \<longrightarrow> GetBinLabel (th2_ylabels g) (k + 1) = labels ! k"
    by auto
  from cells have "\<forall>k j. k < length hs \<longrightarrow> 1 \<le> j \<longrightarrow> j \<le> B
                 \<longrightarrow> single_round (GetBinContent (hs ! k) j) = GetBinContent (hs ! k) j
                 \<longrightarrow> GetBinContent2 g j (k + 1) = GetBinContent (hs ! k) j"
    by simp
  with g cells labs show ?thesis by blast
qed

theorem grid_rows_witness:
  "[ex_counts, ex_empty] \<noteq> []
   \<and> wf_TH1 ex_counts \<and> th1_nbins ex_counts = 4 \<and> wf_TH1 ex_empty \<and> th1_nbins ex_empty = 4
   \<and> (\<exists>g. create_2d_histogram [Some ex_counts, Some ex_empty] [''0.1 (L)'', ''1 (L)'']
              ''EventCutFlow'' = Inr (Some g, [])
        \<and> th2_nbinsx g = 4 \<and> th2_nbinsy g = 2
        \<and> GetBinContent2 g 1 1 = 100 \<and> GetBinContent2 g 4 1 = 10
        \<and> GetBinContent2 g 1 2 = 0 \<and> GetBinContent2 g 2 2 = 7
        \<and> GetBinLabel (th2_ylabels g) 1 = ''0.1 (L)''
        \<and> GetBinLabel (th2_ylabels g) 2 = ''1 (L)'')"
proof -
  have w: "wf_TH1 ex_counts" "th1_nbins ex_counts = 4" "wf_TH1 ex_empty" "th1_nbins ex_empty = 4"
    by (simp_all add: wf_TH1_def ex_counts_def ex_empty_def)
  then have a: "\<forall>h\<in>set [ex_counts, ex_empty]. wf_TH1 h \<and> th1_nbins h = 4" by simp
  have n: "[ex_counts, ex_empty] \<noteq> []" by simp
  have l: "length [''0.1 (L)'', ''1 (L)''] = length [ex_counts, ex_empty]" by simp
  have r: "\<forall>h\<in>set [ex_counts, ex_empty]. \<forall>c\<in>set (th1_bins h). \<bar>c\<bar> \<le> 2 ^ 127"
    by (simp add: ex_counts_def ex_empty_def)
  have c: "GetBinContent ex_counts 1 = 100" "GetBinContent ex_counts 4 = 10"
    "GetBinContent ex_empty 1 = 0" "GetBinContent ex_empty 2 = 7"
    by (simp_all add: GetBinContent_def ex_counts_def ex_empty_def)
  have s: "single_round 100 = 100" "single_round 10 = 10" "single_round 0 = 0"
    "single_round 7 = 7"
    using single_round_int [of 100] single_round_int [of 10] single_round_int [of 0]
      single_round_int [of 7]
    by simp_all
  from grid_rows [OF n a l r, of "''EventCutFlow''"] obtain g where
    g: "create_2d_histogram [Some ex_counts, Some ex_empty] [''0.1 (L)'', ''1 (L)'']
          ''EventCutFlow'' = Inr (Some g, [])" "th2_nbinsx g = 4" "th2_nbinsy g = 2"
    and cell: "\<And>k j. k < 2 \<Longrightarrow> 1 \<le> j \<Longrightarrow> j \<le> 4 \<Longrightarrow>
          GetBinContent2 g j (k + 1) = single_round (GetBinContent ([ex_counts, ex_empty] ! k) j)"
    and lab: "\<And>k. k < 2 \<Longrightarrow>
          GetBinLabel (th2_ylabels g) (k + 1) = [''0.1 (L)'', ''1 (L)''] ! k"
    by auto
  from cell [of 0 1] cell [of 0 4] cell [of 1 1] cell [of 1 2] lab [of 0] lab [of 1] c s
  have "GetBinContent2 g 1 1 = 100 \<and> GetBinContent2 g 4 1 = 10
        \<and> GetBinContent2 g 1 2 = 0 \<and> GetBinContent2 g 2 2 = 7
        \<and> GetBinLabel (th2_ylabels g) 1 = ''0.1 (L)''
        \<and> GetBinLabel (th2_ylabels g) 2 = ''1 (L)''"
    by (simp add: numeral_2_eq_2)
  with g w n show ?thesis by blast
qed

subsection \<open>The loading loops of the grid builder\<close>

lemma load_one_Some:
  "grid_try fs args d c = Inr (Some h) \<Longrightarrow>
   \<exists>m. load_one fs args d c (None, H, L, M) = (None, H @ [h], L @ [grid_label c d], M @ m)"
  by (cases "grid_load_histogram fs
            (grid_construct_filename (g_gluino_mass args) (g_neutralino_mass args) c d (g_era args))
            (g_hist_name args)")
     (auto simp add: load_one_def grid_try_def Let_def)

lemma load_one_None:
  "grid_try fs args d c = Inr None \<Longrightarrow>
   \<exists>m. load_one fs args d c (None, H, L, M) = (None, H, L, M @ m @ [Warning_Skipping c d])"
  by (cases "grid_load_histogram fs
            (grid_construct_filename (g_gluino_mass args) (g_neutralino_mass args) c d (g_era args))
            (g_hist_name args)")
     (auto simp add: load_one_def grid_try_def Let_def)

lemma load_one_raise:
  "grid_try fs args d c = Inl e \<Longrightarrow> load_one fs args d c (None, H, L, M) = (Some e, H, L, M)"
  by (cases "grid_load_histogram fs
            (grid_construct_filename (g_gluino_mass args) (g_neutralino_mass args) c d (g_era args))
            (g_hist_name args)")
     (auto simp add: load_one_def grid_try_def Let_def)

lemma load_one_raised: "load_one fs args d c (Some e, H, L, M) = (Some e, H, L, M)"
  by (simp add: load_one_def)

lemma inner_loop_raised: "fold (load_one fs args d) cs (Some e, H, L, M) = (Some e, H, L, M)"
  by (induction cs) (simp_all add: load_one_raised)

lemma outer_loop_raised:
  "fold (\<lambda>d st. fold (load_one fs args d) cs st) ds (Some e, H, L, M) = (Some e, H, L, M)"
  by (induction ds) (simp_all add: inner_loop_raised)

lemma load_one_cases:
  "(\<exists>H' L' M'. load_one fs args d c (None, H, L, M) = (None, H', L', M')
       \<and> (\<forall>e. grid_try fs args d c \<noteq> Inl e))
   \<or> (\<exists>e. load_one fs args d c (None, H, L, M) = (Some e, H, L, M) \<and> grid_try fs args d c = Inl e)"
proof (cases "grid_try fs args d c")
  case (Inl e)
  from load_one_raise [OF Inl] Inl show ?thesis by blast
next
  case (Inr r)
  show ?thesis
  proof (cases r)
    case None
    with Inr load_one_None [of fs args d c H L M] show ?thesis by auto
  next
    case (Some h)
    with Inr load_one_Some [of fs args d c h H L M] show ?thesis by auto
  qed
qed

lemma inner_loop_raise:
  "\<exists>c\<in>set cs. \<exists>e. grid_try fs args d c = Inl e \<Longrightarrow>
   \<exists>e H' L' M'. fold (load_one fs args d) cs (None, H, L, M) = (Some e, H', L', M')"
proof (induction cs arbitrary: H L M)
  case Nil
  then show ?case by simp
next
  case (Cons c cs)
  from load_one_cases [of fs args d c H L M] show ?case
  proof
    assume "\<exists>H' L' M'. load_one fs args d c (None, H, L, M) = (None, H', L', M')
       \<and> (\<forall>e. grid_try fs args d c \<noteq> Inl e)"
    then obtain H' L' M' where s: "load_one fs args d c (None, H, L, M) = (None, H', L', M')"
      and n: "\<forall>e. grid_try fs args d c \<noteq> Inl e" by blast
    from Cons.prems n have "\<exists>c\<in>set cs. \<exists>e. grid_try fs args d c = Inl e" by auto
    from Cons.IH [OF this, of H' L' M'] s show ?thesis by simp
  next
    assume "\<exists>e. load_one fs args d c (None, H, L, M) = (Some e, H, L, M)
       \<and> grid_try fs args d c = Inl e"
    then obtain e where "load_one fs args d c (None, H, L, M) = (Some e, H, L, M)" by blast
    then show ?thesis by (simp add: inner_loop_raised)
  qed
qed

lemma inner_loop_state:
  "(\<exists>H' L' M'. fold (load_one fs args d) cs (None, H, L, M) = (None, H', L', M'))
   \<or> (\<exists>e H' L' M'. fold (load_one fs args d) cs (None, H, L, M) = (Some e, H', L', M'))"
proof -
  obtain r H' L' M' where "fold (load_one fs args d) cs (None, H, L, M) = (r, H', L', M')"
    by (metis prod_cases4)
  then show ?thesis by (cases r) auto
qed

lemma outer_loop_raise:
  "\<exists>d\<in>set ds. \<exists>c\<in>set cs. \<exists>e. grid_try fs args d c = Inl e \<Longrightarrow>
   \<exists>e H' L' M'. fold (\<lambda>d st. fold (load_one fs args d) cs st) ds (None, H, L, M)
                  = (Some e, H', L', M')"
proof (induction ds arbitrary: H L M)
  case Nil
  then show ?case by simp
next
  case (Cons d ds)
  from inner_loop_state [of fs args d cs H L M] show ?case
  proof
    assume "\<exists>H' L' M'. fold (load_one fs args d) cs (None, H, L, M) = (None, H', L', M')"
    then obtain H' L' M' where
      s: "fold (load_one fs args d) cs (None, H, L, M) = (None, H', L', M')" by blast
    have "\<not> (\<exists>c\<in>set cs. \<exists>e. grid_try fs args d c = Inl e)"
    proof
      assume "\<exists>c\<in>set cs. \<exists>e. grid_try fs args d c = Inl e"
      from inner_loop_raise [OF this, of H L M] s show False by simp
    qed
    with Cons.prems have "\<exists>d\<in>set ds. \<exists>c\<in>set cs. \<exists>e. grid_try fs args d c = Inl e" by auto
    from Cons.IH [OF this, of H' L' M'] s show ?thesis by simp
  next
    assume "\<exists>e H' L' M'. fold (load_one fs args d) cs (None, H, L, M) = (Some e, H', L', M')"
    then obtain e H' L' M' where
      "fold (load_one fs args d) cs (None, H, L, M) = (Some e, H', L', M')" by blast
    then show ?thesis by (simp add: outer_loop_raised)
  qed
qed

lemma inner_loop:
  assumes "\<forall>c\<in>set cs. \<forall>e. grid_try fs args d c \<noteq> Inl e"
  shows "\<exists>M'. fold (load_one fs args d) cs (None, H, L, M) =
          (None, H @ map fst (loaded_rows fs args d cs), L @ map snd (loaded_rows fs args d cs),
           M @ M')
        \<and> (\<forall>c\<in>set cs. grid_try fs args d c = Inr None \<longrightarrow> Warning_Skipping c d \<in> set M')"
  using assms
proof (induction cs arbitrary: H L M)
  case Nil
  then show ?case by (simp add: loaded_rows_def)
next
  case (Cons c cs)
  from Cons.prems have nr: "\<forall>c\<in>set cs. \<forall>e. grid_try fs args d c \<noteq> Inl e" by simp
  from Cons.prems obtain r where r: "grid_try fs args d c = Inr r"
    by (cases "grid_try fs args d c") auto
  show ?case
  proof (cases r)
    case None
    with r have None': "grid_try fs args d c = Inr None" by simp
    from load_one_None [OF None'] obtain m where
      m: "load_one fs args d c (None, H, L, M) = (None, H, L, M @ m @ [Warning_Skipping c d])"
      by blast
    from Cons.IH [OF nr, of H L "M @ m @ [Warning_Skipping c d]"] obtain M' where
      M': "fold (load_one fs args d) cs (None, H, L, M @ m @ [Warning_Skipping c d]) =
          (None, H @ map fst (loaded_rows fs args d cs), L @ map snd (loaded_rows fs args d cs),
           (M @ m @ [Warning_Skipping c d]) @ M')"
      "\<forall>c\<in>set cs. grid_try fs args d c = Inr None \<longrightarrow> Warning_Skipping c d \<in> set M'"
      by blast
    have rows: "loaded_rows fs args d (c # cs) = loaded_rows fs args d cs"
      using None' by (simp add: loaded_rows_def)
    have "fold (load_one fs args d) (c # cs) (None, H, L, M) =
          (None, H @ map fst (loaded_rows fs args d (c # cs)),
           L @ map snd (loaded_rows fs args d (c # cs)),
           M @ (m @ [Warning_Skipping c d] @ M'))"
      using m M'(1) rows by simp
    moreover have "\<forall>c'\<in>set (c # cs). grid_try fs args d c' = Inr None
        \<longrightarrow> Warning_Skipping c' d \<in> set (m @ [Warning_Skipping c d] @ M')"
      using M'(2) by auto
    ultimately show ?thesis by blast
  next
    case (Some h)
    with r have Some': "grid_try fs args d c = Inr (Some h)" by simp
    from load_one_Some [OF Some'] obtain m where
      m: "load_one fs args d c (None, H, L, M) = (None, H @ [h], L @ [grid_label c d], M @ m)"
      by blast
    from Cons.IH [OF nr, of "H @ [h]" "L @ [grid_label c d]" "M @ m"] obtain M' where
      M': "fold (load_one fs args d) cs (None, H @ [h], L @ [grid_label c d], M @ m) =
          (None, (H @ [h]) @ map fst (loaded_rows fs args d cs),
           (L @ [grid_label c d]) @ map snd (loaded_rows fs args d cs), (M @ m) @ M')"
      "\<forall>c\<in>set cs. grid_try fs args d c = Inr None \<longrightarrow> Warning_Skipping c d \<in> set M'"
      by blast
    have rows: "loaded_rows fs args d (c # cs) = (h, grid_label c d) # loaded_rows fs args d cs"
      using Some' by (simp add: loaded_rows_def)
    have "fold (load_one fs args d) (c # cs) (None, H, L, M) =
          (None, H @ map fst (loaded_rows fs args d (c # cs)),
           L @ map snd (loaded_rows fs args d (c # cs)),
           M @ (m @ M'))"
      using m M'(1) rows by simp
    moreover have "\<forall>c'\<in>set (c # cs). grid_try fs args d c' = Inr None
        \<longrightarrow> Warning_Skipping c' d \<in> set (m @ M')"
      using M'(2) Some' by auto
    ultimately show ?thesis by blast
  qed
qed

lemma outer_loop:
  assumes "\<forall>d\<in>set ds. \<forall>c\<in>set cs. \<forall>e. grid_try fs args d c \<noteq> Inl e"
  shows "\<exists>M'. fold (\<lambda>d st. fold (load_one fs args d) cs st) ds (None, H, L, M) =
          (None, H @ map fst (concat (map (\<lambda>d. loaded_rows fs args d cs) ds)),
           L @ map snd (concat (map (\<lambda>d. loaded_rows fs args d cs) ds)), M @ M')
        \<and> (\<forall>d\<in>set ds. \<forall>c\<in>set cs. grid_try fs args d c = Inr None
              \<longrightarrow> Warning_Skipping c d \<in> set M')"
  using assms
proof (induction ds arbitrary: H L M)
  case Nil
  then show ?case by simp
next
  case (Cons d ds)
  from Cons.prems have nd: "\<forall>c\<in>set cs. \<forall>e. grid_try fs args d c \<noteq> Inl e"
    and nr: "\<forall>d\<in>set ds. \<forall>c\<in>set cs. \<forall>e. grid_try fs args d c \<noteq> Inl e" by simp_all
  from inner_loop [OF nd, of H L M] obtain M1 where
    M1: "fold (load_one fs args d) cs (None, H, L, M) =
          (None, H @ map fst (loaded_rows fs args d cs), L @ map snd (loaded_rows fs args d cs),
           M @ M1)"
      "\<forall>c\<in>set cs. grid_try fs args d c = Inr None \<longrightarrow> Warning_Skipping c d \<in> set M1"
    by blast
  from Cons.IH [OF nr, of "H @ map fst (loaded_rows fs args d cs)"
                   "L @ map snd (loaded_rows fs args d cs)" "M @ M1"] obtain M2 where
    M2: "fold (\<lambda>d st. fold (load_one fs args d) cs st) ds
           (None, H @ map fst (loaded_rows fs args d cs),
            L @ map snd (loaded_rows fs args d cs), M @ M1) =
          (None, (H @ map fst (loaded_rows fs args d cs))
             @ map fst (concat (map (\<lambda>d. loaded_rows fs args d cs) ds)),
           (L @ map snd (loaded_rows fs args d cs))
             @ map snd (concat (map (\<lambda>d. loaded_rows fs args d cs) ds)), (M @ M1) @ M2)"
      "\<forall>d\<in>set ds. \<forall>c\<in>set cs. grid_try fs args d c = Inr None
          \<longrightarrow> Warning_Skipping c d \<in> set M2"
    by blast
  have "fold (\<lambda>d st. fold (load_one fs args d) cs st) (d # ds) (None, H, L, M) =
          (None, H @ map fst (concat (map (\<lambda>d. loaded_rows fs args d cs) (d # ds))),
           L @ map snd (concat (map (\<lambda>d. loaded_rows fs args d cs) (d # ds))), M @ (M1 @ M2))"
    using M1(1) M2(1) by simp
  moreover have "\<forall>d'\<in>set (d # ds). \<forall>c\<in>set cs. grid_try fs args d' c = Inr None
       \<longrightarrow> Warning_Skipping c d' \<in> set (M1 @ M2)"
    using M1(2) M2(2) by auto
  ultimately show ?case by blast
qed

lemma load_all_rows:
  assumes "\<forall>d\<in>set ds. \<forall>c\<in>set cs. \<forall>e. grid_try fs args d c \<noteq> Inl e"
  shows "\<exists>M'. load_all fs args ds cs =
          (None, map fst (concat (map (\<lambda>d. loaded_rows fs args d cs) ds)),
           map snd (concat (map (\<lambda>d. loaded_rows fs args d cs) ds)), M')
        \<and> (\<forall>d\<in>set ds. \<forall>c\<in>set cs. grid_try fs args d c = Inr None
              \<longrightarrow> Warning_Skipping c d \<in> set M')"
  using outer_loop [OF assms, of "[]" "[]" "[]"] by (simp add: load_all_def)

lemma load_all_raise:
  assumes "\<exists>d\<in>set ds. \<exists>c\<in>set cs. \<exists>e. grid_try fs args d c = Inl e"
  shows "\<exists>e H' L' M'. load_all fs args ds cs = (Some e, H', L', M')"
  using outer_loop_raise [OF assms, of "[]" "[]" "[]"] by (simp add: load_all_def)

lemma loaded_rows_empty_iff:
  "(concat (map (\<lambda>d. loaded_rows fs args d cs) ds) = [])
     = (\<forall>d\<in>set ds. \<forall>c\<in>set cs. \<forall>h. grid_try fs args d c \<noteq> Inr (Some h))"
  by (auto simp: loaded_rows_def split: sum.splits option.splits)

subsection \<open>The run of the grid builder\<close>

lemma create_2d_histogram_Some:
  "hs \<noteq> [] \<Longrightarrow> \<exists>g. create_2d_histogram (map Some hs) labels hist_name = Inr (Some g, [])"
  by (cases hs) (simp_all add: create_2d_histogram_def Let_def)

lemma grid_main_raised:
  assumes "\<exists>d\<in>set (grid_decay_types args). \<exists>c\<in>set (parse_ctau_list (g_ctaus args)).
             \<exists>e. grid_try fs args d c = Inl e"
  shows "exit_code (grid_main fs args) = 1 \<and> outputs (grid_main fs args) = []"
proof -
  from load_all_raise [OF assms] obtain e H' L' M' where
    "load_all fs args (grid_decay_types args) (parse_ctau_list (g_ctaus args))
      = (Some e, H', L', M')" by blast
  then show ?thesis by (simp add: grid_main_def Let_def)
qed

lemma grid_main_none:
  assumes "\<forall>d\<in>set (grid_decay_types args). \<forall>c\<in>set (parse_ctau_list (g_ctaus args)).
             \<forall>e. grid_try fs args d c \<noteq> Inl e"
    and "concat (map (\<lambda>d. loaded_rows fs args d (parse_ctau_list (g_ctaus args)))
                       (grid_decay_types args)) = []"
  shows "exit_code (grid_main fs args) = 1 \<and> outputs (grid_main fs args) = []"
proof -
  from load_all_rows [OF assms(1)]
  obtain M' where "load_all fs args (grid_decay_types args) (parse_ctau_list (g_ctaus args))
      = (None, [], [], M')"
    using assms(2) by auto
  then show ?thesis by (simp add: grid_main_def Let_def)
qed

lemma grid_main_some:
  assumes "\<forall>d\<in>set (grid_decay_types args). \<forall>c\<in>set (parse_ctau_list (g_ctaus args)).
             \<forall>e. grid_try fs args d c \<noteq> Inl e"
    and "rows = concat (map (\<lambda>d. loaded_rows fs args d (parse_ctau_list (g_ctaus args)))
                       (grid_decay_types args))"
    and "rows \<noteq> []"
  shows "\<exists>g name. create_2d_histogram (map Some (map fst rows)) (map snd rows) (g_hist_name args)
                     = Inr (Some g, [])
          \<and> exit_code (grid_main fs args) = 0
          \<and> outputs (grid_main fs args) = [(name, Grid_Image g (g_log_scale_z args))]
          \<and> (\<forall>d\<in>set (grid_decay_types args). \<forall>c\<in>set (parse_ctau_list (g_ctaus args)).
                grid_try fs args d c = Inr None
                \<longrightarrow> Warning_Skipping c d \<in> set (console (grid_main fs args)))"
proof -
  from load_all_rows [OF assms(1)]
  obtain M' where la: "load_all fs args (grid_decay_types args) (parse_ctau_list (g_ctaus args))
      = (None, map fst rows, map snd rows, M')"
    and w: "\<forall>d\<in>set (grid_decay_types args). \<forall>c\<in>set (parse_ctau_list (g_ctaus args)).
                grid_try fs args d c = Inr None \<longrightarrow> Warning_Skipping c d \<in> set M'"
    using assms(2) by auto
  from assms(3) have ne: "map fst rows \<noteq> []" by simp
  from create_2d_histogram_Some [OF ne, of "map snd rows" "g_hist_name args"] obtain g where
    g: "create_2d_histogram (map Some (map fst rows)) (map snd rows) (g_hist_name args)
          = Inr (Some g, [])" by blast
  from la g assms(3) have
    "exit_code (grid_main fs args) = 0"
    "\<exists>name. outputs (grid_main fs args) = [(name, Grid_Image g (g_log_scale_z args))]"
    "console (grid_main fs args) = M'"
    by (simp_all add: grid_main_def Let_def save_2d_plot_def)
  with g w show ?thesis by auto
qed

text \<open>
  When no attempt of the loops raises, the run of the grid builder exits with status 1
  and writes no file if no parameter point loads; if at least one loads it ends with
  status 0 and one image file, and the warning that it is skipped has been printed for
  every parameter point that failed to load.
\<close>

lemma grid_exit_status_no_raise:
  assumes "\<forall>d\<in>set (grid_decay_types args). \<forall>c\<in>set (parse_ctau_list (g_ctaus args)).
             \<forall>e. grid_try fs args d c \<noteq> Inl e"
  shows "((\<forall>d\<in>set (grid_decay_types args). \<forall>c\<in>set (parse_ctau_list (g_ctaus args)).
       grid_try fs args d c = Inr None)
      \<longrightarrow> exit_code (grid_main fs args) = 1 \<and> outputs (grid_main fs args) = [])
   \<and> ((\<exists>d\<in>set (grid_decay_types args). \<exists>c\<in>set (parse_ctau_list (g_ctaus args)).
         \<exists>h. grid_try fs args d c = Inr (Some h))
      \<longrightarrow> exit_code (grid_main fs args) = 0 \<and> length (outputs (grid_main fs args)) = 1
          \<and> (\<forall>d\<in>set (grid_decay_types args). \<forall>c\<in>set (parse_ctau_list (g_ctaus args)).
                grid_try fs args d c = Inr None
                \<longrightarrow> Warning_Skipping c d \<in> set (console (grid_main fs args))))"
proof (intro conjI impI)
  assume "\<forall>d\<in>set (grid_decay_types args). \<forall>c\<in>set (parse_ctau_list (g_ctaus args)).
       grid_try fs args d c = Inr None"
  then have "concat (map (\<lambda>d. loaded_rows fs args d (parse_ctau_list (g_ctaus args)))
                       (grid_decay_types args)) = []"
    unfolding loaded_rows_empty_iff by simp
  from grid_main_none [OF assms this]
  show "exit_code (grid_main fs args) = 1" "outputs (grid_main fs args) = []" by simp_all
next
  assume a: "\<exists>d\<in>set (grid_decay_types args). \<exists>c\<in>set (parse_ctau_list (g_ctaus args)).
         \<exists>h. grid_try fs args d c = Inr (Some h)"
  define rows where "rows = concat (map (\<lambda>d. loaded_rows fs args d (parse_ctau_list (g_ctaus args)))
                       (grid_decay_types args))"
  from a have "rows \<noteq> []"
    unfolding rows_def loaded_rows_empty_iff by auto
  from grid_main_some [OF assms rows_def this]
  show "exit_code (grid_main fs args) = 0" "length (outputs (grid_main fs args)) = 1"
    "\<forall>d\<in>set (grid_decay_types args). \<forall>c\<in>set (parse_ctau_list (g_ctaus args)).
                grid_try fs args d c = Inr None
                \<longrightarrow> Warning_Skipping c d \<in> set (console (grid_main fs args))"
    by auto
qed

text \<open>The example runs, evaluated.\<close>

lemma ex_filenames:
  "grid_construct_filename 1800 1300 ''1mm'' ''lightDecay'' ''E''
     = ''gluino1800_chi101300_1mm_lightDecay_E.root''"
  "grid_construct_filename 1800 1300 ''10mm'' ''lightDecay'' ''E''
     = ''gluino1800_chi101300_10mm_lightDecay_E.root''"
  "grid_construct_filename 1800 1300 ''1mm'' ''heavyDecay'' ''E''
     = ''gluino1800_chi101300_1mm_heavyDecay_E.root''"
  "grid_construct_filename 1800 1300 ''10mm'' ''heavyDecay'' ''E''
     = ''gluino1800_chi101300_10mm_heavyDecay_E.root''"
  by code_simp+

lemma ex_clone_names:
  "replace_str ''.root'' [] ''gluino1800_chi101300_1mm_lightDecay_E.root''
     = ''gluino1800_chi101300_1mm_lightDecay_E''"
  "replace_str ''.root'' [] ''gluino1800_chi101300_10mm_heavyDecay_E.root''
     = ''gluino1800_chi101300_10mm_heavyDecay_E''"
  by code_simp+

lemma ex_ctau_list: "parse_ctau_list ''1mm, 10mm'' = [''1mm'', ''10mm'']"
  by code_simp

lemma ex_labels: "grid_label ''1mm'' ''lightDecay'' = ''1 (L)''"
  "grid_label ''10mm'' ''heavyDecay'' = ''10 (H)''"
  "grid_label ''0p1mm'' ''heavyDecay'' = ''0.1 (H)''"
  "grid_label ''10000mm'' ''lightDecay'' = ''10k (L)''"
  by code_simp+

lemma ex_lower: "lower ''both'' = ''both''" "lower ''Both'' = ''both''" "lower ''heavyDecay'' \<noteq> ''both''"
  by code_simp+

lemma ex_grid_try:
  "grid_try ex_grid_fs ex_grid_args ''lightDecay'' ''1mm''
     = Inr (Some (Clone ex_counts ''EventCutFlow_gluino1800_chi101300_1mm_lightDecay_E''))"
  "grid_try ex_grid_fs ex_grid_args ''lightDecay'' ''10mm'' = Inr None"
  "grid_try ex_grid_fs ex_grid_args ''heavyDecay'' ''1mm'' = Inr None"
  "grid_try ex_grid_fs ex_grid_args ''heavyDecay'' ''10mm''
     = Inr (Some (Clone ex_empty ''EventCutFlow_gluino1800_chi101300_10mm_heavyDecay_E''))"
  by (simp_all add: grid_try_def ex_grid_args_def ex_filenames ex_grid_fs_def
        grid_load_histogram_def TFile_Open_def ex_clone_names)

lemma ex_grid_try_unreadable:
  "grid_try ex_grid_fs_unreadable ex_grid_args ''lightDecay'' ''1mm''
     = Inr (Some (Clone ex_counts ''EventCutFlow_gluino1800_chi101300_1mm_lightDecay_E''))"
  "grid_try ex_grid_fs_unreadable ex_grid_args ''lightDecay'' ''10mm'' = Inl OSError"
  "grid_try ex_grid_fs_unreadable ex_grid_args ''heavyDecay'' ''10mm''
     = Inr (Some (Clone ex_empty ''EventCutFlow_gluino1800_chi101300_10mm_heavyDecay_E''))"
  by (simp_all add: grid_try_def ex_grid_args_def ex_filenames ex_grid_fs_unreadable_def
        ex_grid_fs_def grid_load_histogram_def TFile_Open_def ex_clone_names)

lemma ex_grid_both:
  "grid_decay_types ex_grid_args = [''lightDecay'', ''heavyDecay'']"
  "parse_ctau_list (g_ctaus ex_grid_args) = [''1mm'', ''10mm'']"
  "lower (g_decay_types ex_grid_args) = ''both''"
  by (simp_all add: grid_decay_types_def ex_grid_args_def ex_lower ex_ctau_list)

lemma ex_load_all_unreadable:
  "load_all ex_grid_fs_unreadable ex_grid_args [''lightDecay'', ''heavyDecay''] [''1mm'', ''10mm'']
     = (Some OSError, [Clone ex_counts ''EventCutFlow_gluino1800_chi101300_1mm_lightDecay_E''],
        [''1 (L)''], [])"
proof -
  have a: "load_one ex_grid_fs_unreadable ex_grid_args ''lightDecay'' ''1mm'' (None, [], [], [])
      = (None, [Clone ex_counts ''EventCutFlow_gluino1800_chi101300_1mm_lightDecay_E''],
         [''1 (L)''], [])"
    by (simp add: load_one_def Let_def ex_grid_args_def ex_filenames ex_grid_fs_unreadable_def
        ex_grid_fs_def grid_load_histogram_def TFile_Open_def ex_clone_names ex_labels)
  have b: "load_one ex_grid_fs_unreadable ex_grid_args ''lightDecay'' ''10mm''
        (None, [Clone ex_counts ''EventCutFlow_gluino1800_chi101300_1mm_lightDecay_E''],
         [''1 (L)''], [])
      = (Some OSError, [Clone ex_counts ''EventCutFlow_gluino1800_chi101300_1mm_lightDecay_E''],
         [''1 (L)''], [])"
    by (rule load_one_raise) (rule ex_grid_try_unreadable(2))
  show ?thesis
    by (simp add: load_all_def a b load_one_raised)
qed

text \<open>
  Claim C8 asks that a parameter point that fails to load is skipped with a warning, and
  that the run is not aborted when at least one histogram loads. The loader of
  2DHistogram.py tests the file it opened (\<open>if not root_file or root_file.IsZombie()\<close>) so
  as to print a message and return \<open>None\<close>, but \<open>TFile.Open\<close> has raised before the test is
  reached. In the run below two parameter points load, and the file of a third exists and
  cannot be opened: the run ends with status 1 and no image, and no warning that the
  point is skipped is printed.
\<close>

theorem grid_unreadable_file_aborts:
  "ex_grid_fs_unreadable ''gluino1800_chi101300_10mm_lightDecay_E.root'' = Unreadable
   \<and> grid_try ex_grid_fs_unreadable ex_grid_args ''lightDecay'' ''1mm''
       = Inr (Some (Clone ex_counts ''EventCutFlow_gluino1800_chi101300_1mm_lightDecay_E''))
   \<and> grid_try ex_grid_fs_unreadable ex_grid_args ''heavyDecay'' ''10mm''
       = Inr (Some (Clone ex_empty ''EventCutFlow_gluino1800_chi101300_10mm_heavyDecay_E''))
   \<and> grid_try ex_grid_fs_unreadable ex_grid_args ''lightDecay'' ''10mm'' = Inl OSError
   \<and> exit_code (grid_main ex_grid_fs_unreadable ex_grid_args) = 1
   \<and> outputs (grid_main ex_grid_fs_unreadable ex_grid_args) = []
   \<and> Warning_Skipping ''10mm'' ''lightDecay''
       \<notin> set (console (grid_main ex_grid_fs_unreadable ex_grid_args))"
proof -
  have f: "ex_grid_fs_unreadable ''gluino1800_chi101300_10mm_lightDecay_E.root'' = Unreadable"
    by (simp add: ex_grid_fs_unreadable_def)
  have m: "grid_main ex_grid_fs_unreadable ex_grid_args
      = \<lparr>exit_code = 1, outputs = [], console = []\<rparr>"
    by (simp add: grid_main_def Let_def ex_grid_both ex_load_all_unreadable)
  from f m ex_grid_try_unreadable show ?thesis by simp
qed

text \<open>
  Claim C10. When the decay-type selector is \<open>both\<close> (in any letter case) and no attempt of
  the loading loops raises, the rows of the grid that is drawn are, from row 1 up, the
  histograms that loaded for \<open>lightDecay\<close> in the order of the ctau list, followed by the
  histograms that loaded for \<open>heavyDecay\<close> in the same order: row \<open>k + 1\<close> carries the label
  of entry \<open>k\<close> of that list and its bin contents, as the single-precision cells of the
  grid hold them (the histograms hold no cell beyond \<open>2 ^ 127\<close> in magnitude).
\<close>

theorem both_rows_order:
  assumes "lower (g_decay_types args) = ''both''"
    and "\<forall>d\<in>set [''lightDecay'', ''heavyDecay'']. \<forall>c\<in>set (parse_ctau_list (g_ctaus args)).
           \<forall>e. grid_try fs args d c \<noteq> Inl e"
    and "rows = loaded_rows fs args ''lightDecay'' (parse_ctau_list (g_ctaus args))
                @ loaded_rows fs args ''heavyDecay'' (parse_ctau_list (g_ctaus args))"
    and "rows \<noteq> []"
    and "\<forall>r\<in>set rows. \<forall>c\<in>set (th1_bins (fst r)). \<bar>c\<bar> \<le> 2 ^ 127"
  shows "\<exists>name g. outputs (grid_main fs args) = [(name, Grid_Image g (g_log_scale_z args))]
          \<and> th2_nbinsy g = length rows
          \<and> (\<forall>k. k < length rows \<longrightarrow>
                GetBinLabel (th2_ylabels g) (k + 1) = snd (rows ! k)
                \<and> (\<forall>j. 1 \<le> j \<longrightarrow> j \<le> th1_nbins (fst (hd rows))
                       \<longrightarrow> GetBinContent2 g j (k + 1)
                             = single_round (GetBinContent (fst (rows ! k)) j)))"
proof -
  from assms(1) have dt: "grid_decay_types args = [''lightDecay'', ''heavyDecay'']"
    by (simp add: grid_decay_types_def)
  have r: "rows = concat (map (\<lambda>d. loaded_rows fs args d (parse_ctau_list (g_ctaus args)))
                       (grid_decay_types args))"
    by (simp add: dt assms(3))
  from assms(2) have nr: "\<forall>d\<in>set (grid_decay_types args).
      \<forall>c\<in>set (parse_ctau_list (g_ctaus args)). \<forall>e. grid_try fs args d c \<noteq> Inl e"
    by (simp only: dt)
  from grid_main_some [OF nr r assms(4)] obtain g name where
    g: "create_2d_histogram (map Some (map fst rows)) (map snd rows) (g_hist_name args)
                     = Inr (Some g, [])"
    and out: "outputs (grid_main fs args) = [(name, Grid_Image g (g_log_scale_z args))]"
    by blast
  from assms(4) have ne: "map fst rows \<noteq> []" by simp
  have len: "length (map snd rows) = length (map fst rows)" by simp
  from create_2d_histogram_rows [OF ne len, of "g_hist_name args"] g assms(4)
  have "th2_nbinsy g = length rows"
    and "\<forall>k j. k < length rows \<longrightarrow> 1 \<le> j \<longrightarrow> j \<le> th1_nbins (fst (hd rows))
                 \<longrightarrow> GetBinContent2 g j (k + 1)
                       = single_round (GetBinContent (fst (rows ! k)) j)"
    and "\<forall>k. k < length rows \<longrightarrow> GetBinLabel (th2_ylabels g) (k + 1) = snd (rows ! k)"
    by (simp_all add: hd_map)
  with out show ?thesis by blast
qed

lemma ex_rows:
  "loaded_rows ex_grid_fs ex_grid_args ''lightDecay'' (parse_ctau_list (g_ctaus ex_grid_args))
     @ loaded_rows ex_grid_fs ex_grid_args ''heavyDecay'' (parse_ctau_list (g_ctaus ex_grid_args))
   = [(Clone ex_counts ''EventCutFlow_gluino1800_chi101300_1mm_lightDecay_E'', ''1 (L)''),
      (Clone ex_empty ''EventCutFlow_gluino1800_chi101300_10mm_heavyDecay_E'', ''10 (H)'')]"
  by (simp add: loaded_rows_def ex_grid_both ex_grid_try ex_labels)

theorem both_rows_order_witness:
  "lower (g_decay_types ex_grid_args) = ''both''
   \<and> (\<exists>name g. outputs (grid_main ex_grid_fs ex_grid_args) = [(name, Grid_Image g True)]
        \<and> th2_nbinsy g = 2
        \<and> GetBinLabel (th2_ylabels g) 1 = ''1 (L)'' \<and> GetBinLabel (th2_ylabels g) 2 = ''10 (H)''
        \<and> GetBinContent2 g 1 1 = 100 \<and> GetBinContent2 g 2 1 = 50
        \<and> GetBinContent2 g 1 2 = 0 \<and> GetBinContent2 g 2 2 = 7)"
proof -
  let ?rows = "[(Clone ex_counts ''EventCutFlow_gluino1800_chi101300_1mm_lightDecay_E'', ''1 (L)''),
      (Clone ex_empty ''EventCutFlow_gluino1800_chi101300_10mm_heavyDecay_E'', ''10 (H)'')]"
  have ne: "?rows \<noteq> []" by simp
  have log: "g_log_scale_z ex_grid_args = True" by (simp add: ex_grid_args_def)
  have c: "GetBinContent ex_counts 1 = 100" "GetBinContent ex_counts 2 = 50"
    "GetBinContent ex_empty 1 = 0" "GetBinContent ex_empty 2 = 7"
    by (simp_all add: GetBinContent_def ex_counts_def ex_empty_def)
  have s: "single_round 100 = 100" "single_round 50 = 50" "single_round 0 = 0"
    "single_round 7 = 7"
    using single_round_int [of 100] single_round_int [of 50] single_round_int [of 0]
      single_round_int [of 7]
    by simp_all
  have nb: "th1_nbins (fst (hd ?rows)) = 4" by (simp add: Clone_def ex_counts_def)
  have nr: "\<forall>d\<in>set [''lightDecay'', ''heavyDecay''].
      \<forall>c\<in>set (parse_ctau_list (g_ctaus ex_grid_args)).
        \<forall>e. grid_try ex_grid_fs ex_grid_args d c \<noteq> Inl e"
    by (simp add: ex_grid_both ex_grid_try)
  have mag: "\<forall>r\<in>set ?rows. \<forall>c\<in>set (th1_bins (fst r)). \<bar>c\<bar> \<le> 2 ^ 127"
    by (simp add: Clone_def ex_counts_def ex_empty_def)
  from both_rows_order [OF ex_grid_both(3) nr ex_rows [symmetric] ne mag] obtain name g where
    out: "outputs (grid_main ex_grid_fs ex_grid_args) = [(name, Grid_Image g True)]"
    and ny: "th2_nbinsy g = 2"
    and row: "\<And>k. k < 2 \<Longrightarrow> GetBinLabel (th2_ylabels g) (k + 1) = snd (?rows ! k)
                \<and> (\<forall>j. 1 \<le> j \<longrightarrow> j \<le> 4
                       \<longrightarrow> GetBinContent2 g j (k + 1)
                             = single_round (GetBinContent (fst (?rows ! k)) j))"
    unfolding log nb by auto
  from row [of 0] row [of 1] c s
  have "GetBinLabel (th2_ylabels g) 1 = ''1 (L)'' \<and> GetBinLabel (th2_ylabels g) 2 = ''10 (H)''
        \<and> GetBinContent2 g 1 1 = 100 \<and> GetBinContent2 g 2 1 = 50
        \<and> GetBinContent2 g 1 2 = 0 \<and> GetBinContent2 g 2 2 = 7"
    by (simp add: GetBinContent_Clone numeral_2_eq_2)
  with out ny ex_grid_both(3) show ?thesis by blast
qed

subsection \<open>The input file name\<close>


text \<open>
  Claim C9. With the ctau argument made of a decay length and its unit, and the
  decay-type argument made of a channel and the word \<open>Decay\<close>, the file name is
  \<open>gluino<mass>_chi10<otherMass>_<decayLength><unit>_<channel>Decay_<era>.root\<close>, and the
  two scripts build the same name from the same five arguments.
\<close>

theorem construct_filename_format:
  "ratio_construct_filename gluino_mass neutralino_mass (decay_length @ unit)
       (channel @ ''Decay'') era
     = ''gluino'' @ str_int gluino_mass @ ''_chi10'' @ str_int neutralino_mass @ ''_''
         @ decay_length @ unit @ ''_'' @ channel @ ''Decay_'' @ era @ ''.root''
   \<and> grid_construct_filename gluino_mass neutralino_mass ctau decay_type era
     = ratio_construct_filename gluino_mass neutralino_mass ctau decay_type era"
  by (simp add: ratio_construct_filename_def grid_construct_filename_def)

theorem construct_filename_format_witness:
  "ratio_construct_filename 1800 1300 (''0p1'' @ ''mm'') (''light'' @ ''Decay'')
       ''130X_mcRun3_2023_realistic_postBPix_v2''
     = ''gluino1800_chi101300_0p1mm_lightDecay_130X_mcRun3_2023_realistic_postBPix_v2.root''
   \<and> grid_construct_filename (- 5) 0 ''10000mm'' ''heavyDecay'' ''E''
     = ''gluino-5_chi100_10000mm_heavyDecay_E.root''"
proof -
  have d: "str_int 1800 = ''1800''" "str_int 1300 = ''1300''" "str_int (- 5) = ''-5''"
    "str_int 0 = ''0''"
    by code_simp+
  show ?thesis
    using construct_filename_format [of 1800 1300 "''0p1''" "''mm''" "''light''"
             "''130X_mcRun3_2023_realistic_postBPix_v2''"]
          construct_filename_format [of "- 5" 0 "''10000''" "''mm''" "''heavy''" "''E''"
             "''10000mm''" "''heavyDecay''"] d
    by simp
qed

subsection \<open>The run of the ratio builder\<close>

lemma those_map_None: "(those (map f xs) = None) = (\<exists>x\<in>set xs. f x = None)"
  by (induction xs) (auto split: option.splits)

lemma parse_y_range_error:
  "(\<exists>e. parse_y_range pyfloat s = Inl e)
     = (s \<noteq> [] \<and> (\<exists>p\<in>set (split_str CHR '','' s). pyfloat p = None))"
  using those_map_None [of pyfloat "split_str CHR '','' s"]
  by (auto simp: parse_y_range_def split: option.splits)

lemma ratio_main_y_range_error:
  assumes "parse_y_range pyfloat (r_y_range args) = Inl e"
  shows "exit_code (ratio_main pyfloat fs args) = 1 \<and> outputs (ratio_main pyfloat fs args) = []"
  using assms by (simp add: ratio_main_def)

lemma ratio_main_load_failed:
  assumes "parse_y_range pyfloat (r_y_range args) = Inr y_range"
    and "ratio_try fs args (r_ctau1 args) = None \<or> ratio_try fs args (r_ctau2 args) = None"
  shows "exit_code (ratio_main pyfloat fs args) = 1 \<and> outputs (ratio_main pyfloat fs args) = []"
  using assms
  by (auto simp: ratio_main_def ratio_try_def Let_def split_beta split: sum.splits)

lemma ratio_main_saved:
  assumes "parse_y_range pyfloat (r_y_range args) = Inr y_range"
    and "ratio_try fs args (r_ctau1 args) = Some h1"
    and "ratio_try fs args (r_ctau2 args) = Some h2"
  shows "exit_code (ratio_main pyfloat fs args) = 0
          \<and> length (outputs (ratio_main pyfloat fs args)) = 1"
  using assms
  by (auto simp: ratio_main_def ratio_try_def Let_def split_beta create_ratio_plot_def
        save_ratio_plot_def split: sum.splits)

text \<open>
  Claim C7. A run of the ratio builder exits with status 1 and writes no file when one
  of the two histograms cannot be loaded (the loader returns \<open>None\<close> or raises) or the \<open>--y-range\<close> flag is malformed: not empty,
  with a piece between commas that Python's \<open>float\<close> rejects (an empty flag stands for no
  list, by the guard of the source, and is not malformed). Every other run exits with
  status 0 and has written one image file.
\<close>

theorem ratio_exit_status:
  "if ratio_try fs args (r_ctau1 args) = None \<or> ratio_try fs args (r_ctau2 args) = None
      \<or> (r_y_range args \<noteq> []
          \<and> (\<exists>p\<in>set (split_str CHR '','' (r_y_range args)). pyfloat p = None))
   then exit_code (ratio_main pyfloat fs args) = 1 \<and> outputs (ratio_main pyfloat fs args) = []
   else exit_code (ratio_main pyfloat fs args) = 0
        \<and> length (outputs (ratio_main pyfloat fs args)) = 1"
proof (cases "parse_y_range pyfloat (r_y_range args)")
  case (Inl e)
  then have "r_y_range args \<noteq> []
          \<and> (\<exists>p\<in>set (split_str CHR '','' (r_y_range args)). pyfloat p = None)"
    using parse_y_range_error [of pyfloat "r_y_range args"] by blast
  with ratio_main_y_range_error [OF Inl, of fs] show ?thesis by auto
next
  case (Inr y_range)
  then have ok: "\<not> (r_y_range args \<noteq> []
          \<and> (\<exists>p\<in>set (split_str CHR '','' (r_y_range args)). pyfloat p = None))"
    using parse_y_range_error [of pyfloat "r_y_range args"] by auto
  show ?thesis
  proof (cases "ratio_try fs args (r_ctau1 args) = None \<or> ratio_try fs args (r_ctau2 args) = None")
    case True
    with ratio_main_load_failed [OF Inr True] show ?thesis by auto
  next
    case False
    then obtain h1 h2 where "ratio_try fs args (r_ctau1 args) = Some h1"
      "ratio_try fs args (r_ctau2 args) = Some h2" by auto
    from ratio_main_saved [OF Inr this] False ok show ?thesis by auto
  qed
qed

lemma ex_ratio_filenames:
  "ratio_construct_filename 1800 1300 ''1mm'' ''lightDecay'' ''E''
     = ''gluino1800_chi101300_1mm_lightDecay_E.root''"
  "ratio_construct_filename 1800 1300 ''10mm'' ''lightDecay'' ''E''
     = ''gluino1800_chi101300_10mm_lightDecay_E.root''"
  "ratio_construct_filename 1800 1300 ''1mm'' ''heavyDecay'' ''E''
     = ''gluino1800_chi101300_1mm_heavyDecay_E.root''"
  "ratio_construct_filename 1800 1300 ''10mm'' ''heavyDecay'' ''E''
     = ''gluino1800_chi101300_10mm_heavyDecay_E.root''"
  by code_simp+

lemma ex_ratio_try:
  "ratio_try ex_grid_fs ex_ratio_args ''1mm'' \<noteq> None"
  "ratio_try ex_grid_fs ex_ratio_args ''10mm'' \<noteq> None"
  "ratio_try ex_grid_fs ex_ratio_args_missing ''10mm'' = None"
  "ratio_try ex_grid_fs_unreadable ex_ratio_args_missing ''10mm'' = None"
  by (simp_all add: ratio_try_def ex_ratio_args_def ex_ratio_args_missing_def ex_ratio_filenames
        ex_grid_fs_def ex_grid_fs_unreadable_def ratio_load_histogram_def TFile_Open_def Let_def
        split_beta)

lemma ex_y_range:
  "split_str CHR '','' ''1,0.5'' = [''1'', ''0.5'']"
  "split_str CHR '','' ''1,abc'' = [''1'', ''abc'']"
  by simp_all

theorem ratio_exit_status_witness:
  "exit_code (ratio_main ex_pyfloat ex_grid_fs ex_ratio_args) = 0
   \<and> length (outputs (ratio_main ex_pyfloat ex_grid_fs ex_ratio_args)) = 1
   \<and> exit_code (ratio_main ex_pyfloat ex_grid_fs ex_ratio_args_missing) = 1
   \<and> outputs (ratio_main ex_pyfloat ex_grid_fs ex_ratio_args_missing) = []
   \<and> exit_code (ratio_main ex_pyfloat ex_grid_fs ex_ratio_args_bad) = 1
   \<and> outputs (ratio_main ex_pyfloat ex_grid_fs ex_ratio_args_bad) = []
   \<and> ex_grid_fs_unreadable ''gluino1800_chi101300_10mm_lightDecay_E.root'' = Unreadable
   \<and> exit_code (ratio_main ex_pyfloat ex_grid_fs_unreadable ex_ratio_args_missing) = 1
   \<and> outputs (ratio_main ex_pyfloat ex_grid_fs_unreadable ex_ratio_args_missing) = []"
proof -
  have ok: "\<not> (ratio_try ex_grid_fs ex_ratio_args (r_ctau1 ex_ratio_args) = None
      \<or> ratio_try ex_grid_fs ex_ratio_args (r_ctau2 ex_ratio_args) = None
      \<or> (r_y_range ex_ratio_args \<noteq> []
          \<and> (\<exists>p\<in>set (split_str CHR '','' (r_y_range ex_ratio_args)). ex_pyfloat p = None)))"
    using ex_ratio_try(1,2) by (simp add: ex_ratio_args_def ex_pyfloat_def)
  have missing: "ratio_try ex_grid_fs ex_ratio_args_missing (r_ctau2 ex_ratio_args_missing) = None"
    using ex_ratio_try(3) by (simp add: ex_ratio_args_missing_def ex_ratio_args_def)
  have bad: "r_y_range ex_ratio_args_bad \<noteq> []
          \<and> (\<exists>p\<in>set (split_str CHR '','' (r_y_range ex_ratio_args_bad)). ex_pyfloat p = None)"
    by (simp add: ex_ratio_args_bad_def ex_ratio_args_def ex_pyfloat_def)
  from ratio_exit_status [of ex_grid_fs ex_ratio_args ex_pyfloat] ok
  have a: "exit_code (ratio_main ex_pyfloat ex_grid_fs ex_ratio_args) = 0
   \<and> length (outputs (ratio_main ex_pyfloat ex_grid_fs ex_ratio_args)) = 1"
    by (simp only: if_False)
  from ratio_exit_status [of ex_grid_fs ex_ratio_args_missing ex_pyfloat] missing
  have b: "exit_code (ratio_main ex_pyfloat ex_grid_fs ex_ratio_args_missing) = 1
   \<and> outputs (ratio_main ex_pyfloat ex_grid_fs ex_ratio_args_missing) = []"
    by simp
  from ratio_exit_status [of ex_grid_fs ex_ratio_args_bad ex_pyfloat] bad
  have c: "exit_code (ratio_main ex_pyfloat ex_grid_fs ex_ratio_args_bad) = 1
   \<and> outputs (ratio_main ex_pyfloat ex_grid_fs ex_ratio_args_bad) = []"
    by simp
  have unreadable: "ratio_try ex_grid_fs_unreadable ex_ratio_args_missing
      (r_ctau2 ex_ratio_args_missing) = None"
    using ex_ratio_try(4) by (simp add: ex_ratio_args_missing_def ex_ratio_args_def)
  from ratio_exit_status [of ex_grid_fs_unreadable ex_ratio_args_missing ex_pyfloat] unreadable
  have d: "exit_code (ratio_main ex_pyfloat ex_grid_fs_unreadable ex_ratio_args_missing) = 1
   \<and> outputs (ratio_main ex_pyfloat ex_grid_fs_unreadable ex_ratio_args_missing) = []"
    by simp
  have f: "ex_grid_fs_unreadable ''gluino1800_chi101300_10mm_lightDecay_E.root'' = Unreadable"
    by (simp add: ex_grid_fs_unreadable_def)
  from a b c d f show ?thesis by simp
qed

subsection \<open>The two histogram loaders\<close>

text \<open>
  The ratio builder's loader returns no histogram exactly when the file is missing or
  opens and holds the name under neither directory; the grid builder's loader looks under
  the first directory only. Both raise exactly when the file exists and cannot be opened.
\<close>

lemma ratio_load_None_iff:
  "(\<exists>m. ratio_load_histogram fs filename hist_name = Inr (None, m))
     = (fs filename = Missing
        \<or> (\<exists>root_file. fs filename = RootFile root_file
              \<and> root_file (''HSCPMiniAODAnalyzer/'' @ hist_name) = None
              \<and> root_file (''HSCPFullAODAnalyzer/'' @ hist_name) = None))"
  by (auto simp: ratio_load_histogram_def TFile_Open_def Let_def split_beta
        split: root_file.splits option.splits)

lemma ratio_load_None_message:
  "ratio_load_histogram fs filename hist_name = Inr (None, m) \<Longrightarrow> m \<noteq> []"
  by (auto simp: ratio_load_histogram_def TFile_Open_def Let_def split_beta
        split: root_file.splits option.splits if_splits)

lemma grid_load_None_iff:
  "(\<exists>m. grid_load_histogram fs filename hist_name = Inr (None, m))
     = (fs filename = Missing
        \<or> (\<exists>root_file. fs filename = RootFile root_file
              \<and> root_file (''HSCPMiniAODAnalyzer/'' @ hist_name) = None))"
  by (auto simp: grid_load_histogram_def TFile_Open_def split: root_file.splits option.splits)

lemma load_raises_iff:
  "(\<exists>e. ratio_load_histogram fs filename hist_name = Inl e) = (fs filename = Unreadable)"
  "(\<exists>e. grid_load_histogram fs filename hist_name = Inl e) = (fs filename = Unreadable)"
  by (auto simp: ratio_load_histogram_def grid_load_histogram_def TFile_Open_def Let_def
        split_beta split: root_file.splits option.splits)

lemma ex_short_names:
  "replace_str ''.root'' [] ''a.root'' = ''a''" "replace_str ''.root'' [] ''b.root'' = ''b''"
  by code_simp+

text \<open>
  Claim C6. The claim asks of each loader that it returns no histogram, and raises
  nothing, exactly when the file is missing, unreadable or holds the name under neither
  of the two directories. On a file that holds the histogram under \<open>HSCPFullAODAnalyzer\<close>
  only, the grid builder's loader returns no histogram and reports the name under
  \<open>HSCPMiniAODAnalyzer\<close> as not found, while the ratio builder's loader returns the
  histogram. On a file that cannot be opened, both loaders raise.
\<close>

theorem grid_loader_misses_second_directory:
  "ex_fs ''b.root'' = RootFile [''HSCPFullAODAnalyzer/EventCutFlow'' \<mapsto> ex_empty]
   \<and> grid_load_histogram ex_fs ''b.root'' ''EventCutFlow''
       = Inr (None, [Error_HistNotFound ''HSCPMiniAODAnalyzer/EventCutFlow'' ''b.root''])
   \<and> ratio_load_histogram ex_fs ''b.root'' ''EventCutFlow''
       = Inr (Some (Clone ex_empty ''EventCutFlow_b''),
              [Warning_ZeroEvents ''HSCPFullAODAnalyzer/EventCutFlow'' ''b.root''])
   \<and> ex_fs ''c.root'' = Unreadable
   \<and> grid_load_histogram ex_fs ''c.root'' ''EventCutFlow'' = Inl OSError
   \<and> ratio_load_histogram ex_fs ''c.root'' ''EventCutFlow'' = Inl OSError"
proof -
  have z: "GetBinContent (Clone ex_empty ''EventCutFlow_b'') 1 \<le> 0"
    unfolding GetBinContent_Clone by (simp add: GetBinContent_def ex_empty_def)
  have "ratio_load_histogram ex_fs ''b.root'' ''EventCutFlow''
       = Inr (Some (Clone ex_empty ''EventCutFlow_b''),
              [Warning_ZeroEvents ''HSCPFullAODAnalyzer/EventCutFlow'' ''b.root''])"
    by (simp add: ex_fs_def ratio_load_histogram_def TFile_Open_def Let_def ex_short_names
          normalize_not_positive [OF z])
  moreover have "grid_load_histogram ex_fs ''b.root'' ''EventCutFlow''
       = Inr (None, [Error_HistNotFound ''HSCPMiniAODAnalyzer/EventCutFlow'' ''b.root''])"
    by (simp add: ex_fs_def grid_load_histogram_def TFile_Open_def)
  moreover have "grid_load_histogram ex_fs ''c.root'' ''EventCutFlow'' = Inl OSError"
    "ratio_load_histogram ex_fs ''c.root'' ''EventCutFlow'' = Inl OSError"
    by (simp_all add: ex_fs_def grid_load_histogram_def ratio_load_histogram_def TFile_Open_def)
  moreover have "ex_fs ''b.root'' = RootFile [''HSCPFullAODAnalyzer/EventCutFlow'' \<mapsto> ex_empty]"
    "ex_fs ''c.root'' = Unreadable"
    by (simp_all add: ex_fs_def)
  ultimately show ?thesis by simp
qed

text \<open>
  Claim C5, as stated, fails: on a file that holds the histogram under the first
  directory with 100 in its first bin, the ratio builder's loader returns the normalised
  clone, with 1 in its first bin, and the grid builder's loader the clone as it is.
\<close>

theorem loaders_differ_counterexample:
  "ratio_load_histogram ex_fs ''a.root'' ''EventCutFlow''
     \<noteq> grid_load_histogram ex_fs ''a.root'' ''EventCutFlow''
   \<and> (\<exists>r g. ratio_load_histogram ex_fs ''a.root'' ''EventCutFlow'' = Inr (Some r, [])
          \<and> grid_load_histogram ex_fs ''a.root'' ''EventCutFlow'' = Inr (Some g, [])
          \<and> GetBinContent r 1 = 1 \<and> GetBinContent g 1 = 100)"
proof -
  have g: "grid_load_histogram ex_fs ''a.root'' ''EventCutFlow''
      = Inr (Some (Clone ex_counts ''EventCutFlow_a''), [])"
    by (simp add: ex_fs_def grid_load_histogram_def TFile_Open_def ex_short_names)
  have c: "GetBinContent (Clone ex_counts ''EventCutFlow_a'') 1 = 100"
    unfolding GetBinContent_Clone by (simp add: GetBinContent_def ex_counts_def)
  have cls: "th1_class (Clone ex_counts ''EventCutFlow_a'') = TH1F"
    by (simp add: Clone_def ex_counts_def)
  have r: "ratio_load_histogram ex_fs ''a.root'' ''EventCutFlow''
      = Inr (Some (Scale (Clone ex_counts ''EventCutFlow_a'') (double_round (1 / 100))), [])"
    using normalize_positive [OF c, of "''HSCPMiniAODAnalyzer/EventCutFlow''" "''a.root''"]
    by (simp add: ex_fs_def ratio_load_histogram_def TFile_Open_def Let_def ex_short_names)
  have ar: "2 powi (- 1022) \<le> (100::real)" "(100::real) \<le> 2 powi 1022"
    by (simp_all add: power_int_minus field_simps)
  from normalized_first_bin [OF ar]
  have "single_round (double_round (double_round (1 / 100) * 100)) = 1"
  proof
    assume "double_round (double_round (1 / 100) * 100) = 1"
    then show ?thesis by (simp only: single_round_near_one)
  next
    assume "double_round (double_round (1 / 100) * 100) = 1 - 2 powi (- 53)"
    then show ?thesis by (simp only: single_round_near_one)
  qed
  then have one: "GetBinContent (Scale (Clone ex_counts ''EventCutFlow_a'')
                    (double_round (1 / 100))) 1 = 1"
    by (simp only: GetBinContent_Scale c cls store_cell_def th1_class.case)
  have "ratio_load_histogram ex_fs ''a.root'' ''EventCutFlow''
     \<noteq> grid_load_histogram ex_fs ''a.root'' ''EventCutFlow''"
  proof
    assume "ratio_load_histogram ex_fs ''a.root'' ''EventCutFlow''
     = grid_load_histogram ex_fs ''a.root'' ''EventCutFlow''"
    with g r have "Scale (Clone ex_counts ''EventCutFlow_a'') (double_round (1 / 100))
        = Clone ex_counts ''EventCutFlow_a''" by simp
    with one c show False by simp
  qed
  with g r one c show ?thesis by blast
qed

text \<open>
  Claim C5, amended. The two loaders agree on the file-locating step: when the file is
  missing they return the same result (no histogram, the same message); when the file
  opens and holds the name under neither directory both return no histogram; when the
  file opens and holds the name under \<open>HSCPMiniAODAnalyzer\<close>, the grid builder's loader
  returns the clone (named \<open>hist_name + "_" + filename\<close> without \<open>.root\<close>, cells as in the
  file) and the ratio builder's loader returns that clone after the normalisation step,
  which is the same histogram when its first bin is not positive.
\<close>

theorem loaders_agree:
  "(fs filename = Missing
      \<longrightarrow> ratio_load_histogram fs filename hist_name = grid_load_histogram fs filename hist_name
          \<and> grid_load_histogram fs filename hist_name = Inr (None, [Error_FileNotFound filename]))
   \<and> (\<forall>root_file. fs filename = RootFile root_file
         \<and> root_file (''HSCPMiniAODAnalyzer/'' @ hist_name) = None
         \<and> root_file (''HSCPFullAODAnalyzer/'' @ hist_name) = None
      \<longrightarrow> ratio_load_histogram fs filename hist_name
            = Inr (None, [Error_HistNotFound (''HSCPFullAODAnalyzer/'' @ hist_name) filename])
          \<and> grid_load_histogram fs filename hist_name
            = Inr (None, [Error_HistNotFound (''HSCPMiniAODAnalyzer/'' @ hist_name) filename]))
   \<and> (\<forall>root_file h. fs filename = RootFile root_file
         \<and> root_file (''HSCPMiniAODAnalyzer/'' @ hist_name) = Some h
      \<longrightarrow> (\<exists>g. grid_load_histogram fs filename hist_name = Inr (Some g, [])
               \<and> th1_name g = hist_name @ ''_'' @ replace_str ''.root'' [] filename
               \<and> th1_bins g = th1_bins h
               \<and> ratio_load_histogram fs filename hist_name
                   = Inr (Some (fst (normalize_hist g (''HSCPMiniAODAnalyzer/'' @ hist_name)
                                       filename)),
                          snd (normalize_hist g (''HSCPMiniAODAnalyzer/'' @ hist_name) filename))
               \<and> (GetBinContent h 1 \<le> 0
                    \<longrightarrow> (\<exists>m. ratio_load_histogram fs filename hist_name = Inr (Some g, m)))))"
proof (intro conjI allI impI)
  assume "fs filename = Missing"
  then show "ratio_load_histogram fs filename hist_name = grid_load_histogram fs filename hist_name"
    "grid_load_histogram fs filename hist_name = Inr (None, [Error_FileNotFound filename])"
    by (simp_all add: ratio_load_histogram_def grid_load_histogram_def)
next
  fix root_file
  assume "fs filename = RootFile root_file
         \<and> root_file (''HSCPMiniAODAnalyzer/'' @ hist_name) = None
         \<and> root_file (''HSCPFullAODAnalyzer/'' @ hist_name) = None"
  then show "ratio_load_histogram fs filename hist_name
            = Inr (None, [Error_HistNotFound (''HSCPFullAODAnalyzer/'' @ hist_name) filename])"
    "grid_load_histogram fs filename hist_name
            = Inr (None, [Error_HistNotFound (''HSCPMiniAODAnalyzer/'' @ hist_name) filename])"
    by (simp_all add: ratio_load_histogram_def grid_load_histogram_def TFile_Open_def)
next
  fix root_file h
  assume a: "fs filename = RootFile root_file
         \<and> root_file (''HSCPMiniAODAnalyzer/'' @ hist_name) = Some h"
  define g where "g = Clone h (hist_name @ ''_'' @ replace_str ''.root'' [] filename)"
  from a have 1: "grid_load_histogram fs filename hist_name = Inr (Some g, [])"
    by (simp add: grid_load_histogram_def TFile_Open_def g_def)
  have 2: "th1_name g = hist_name @ ''_'' @ replace_str ''.root'' [] filename"
    "th1_bins g = th1_bins h"
    by (simp_all add: g_def Clone_def)
  from a have 3: "ratio_load_histogram fs filename hist_name
                   = Inr (Some (fst (normalize_hist g (''HSCPMiniAODAnalyzer/'' @ hist_name)
                                       filename)),
                          snd (normalize_hist g (''HSCPMiniAODAnalyzer/'' @ hist_name) filename))"
    by (simp add: ratio_load_histogram_def TFile_Open_def Let_def split_beta g_def)
  have 4: "GetBinContent h 1 \<le> 0
             \<longrightarrow> (\<exists>m. ratio_load_histogram fs filename hist_name = Inr (Some g, m))"
  proof
    assume "GetBinContent h 1 \<le> 0"
    then have "GetBinContent g 1 \<le> 0" by (simp add: g_def GetBinContent_Clone)
    from normalize_not_positive [OF this] 3
    show "\<exists>m. ratio_load_histogram fs filename hist_name = Inr (Some g, m)" by simp
  qed
  from 1 2 3 4
  show "\<exists>g. grid_load_histogram fs filename hist_name = Inr (Some g, [])
               \<and> th1_name g = hist_name @ ''_'' @ replace_str ''.root'' [] filename
               \<and> th1_bins g = th1_bins h
               \<and> ratio_load_histogram fs filename hist_name
                   = Inr (Some (fst (normalize_hist g (''HSCPMiniAODAnalyzer/'' @ hist_name)
                                       filename)),
                          snd (normalize_hist g (''HSCPMiniAODAnalyzer/'' @ hist_name) filename))
               \<and> (GetBinContent h 1 \<le> 0
                    \<longrightarrow> (\<exists>m. ratio_load_histogram fs filename hist_name = Inr (Some g, m)))"
    by blast
qed

theorem loaders_agree_witness:
  "ex_fs ''e.root'' = Missing
   \<and> ratio_load_histogram ex_fs ''e.root'' ''EventCutFlow''
       = grid_load_histogram ex_fs ''e.root'' ''EventCutFlow''
   \<and> grid_load_histogram ex_fs ''e.root'' ''EventCutFlow''
       = Inr (None, [Error_FileNotFound ''e.root''])
   \<and> ratio_load_histogram ex_fs ''a.root'' ''Other''
       = Inr (None, [Error_HistNotFound ''HSCPFullAODAnalyzer/Other'' ''a.root''])
   \<and> grid_load_histogram ex_fs ''a.root'' ''Other''
       = Inr (None, [Error_HistNotFound ''HSCPMiniAODAnalyzer/Other'' ''a.root''])
   \<and> (\<exists>g. grid_load_histogram ex_fs ''a.root'' ''EventCutFlow'' = Inr (Some g, [])
         \<and> th1_bins g = [0, 100, 50, 25, 10, 0]
         \<and> ratio_load_histogram ex_fs ''a.root'' ''EventCutFlow''
             = Inr (Some (fst (normalize_hist g ''HSCPMiniAODAnalyzer/EventCutFlow'' ''a.root'')),
                    snd (normalize_hist g ''HSCPMiniAODAnalyzer/EventCutFlow'' ''a.root'')))
   \<and> (\<exists>g m. grid_load_histogram ex_grid_fs ''gluino1800_chi101300_10mm_heavyDecay_E.root''
               ''EventCutFlow'' = Inr (Some g, [])
         \<and> ratio_load_histogram ex_grid_fs ''gluino1800_chi101300_10mm_heavyDecay_E.root''
               ''EventCutFlow'' = Inr (Some g, m))"
proof -
  have e: "ex_fs ''e.root'' = Missing" by (simp add: ex_fs_def)
  have a: "ex_fs ''a.root'' = RootFile [''HSCPMiniAODAnalyzer/EventCutFlow'' \<mapsto> ex_counts]"
    by (simp add: ex_fs_def)
  have h: "ex_grid_fs ''gluino1800_chi101300_10mm_heavyDecay_E.root''
             = RootFile [''HSCPMiniAODAnalyzer/EventCutFlow'' \<mapsto> ex_empty]"
    by (simp add: ex_grid_fs_def)
  have z: "GetBinContent ex_empty 1 \<le> 0" by (simp add: GetBinContent_def ex_empty_def)
  have b: "th1_bins ex_counts = [0, 100, 50, 25, 10, 0]" by (simp add: ex_counts_def)
  from loaders_agree [of ex_fs "''e.root''" "''EventCutFlow''"] e
  have 1: "ratio_load_histogram ex_fs ''e.root'' ''EventCutFlow''
       = grid_load_histogram ex_fs ''e.root'' ''EventCutFlow''
     \<and> grid_load_histogram ex_fs ''e.root'' ''EventCutFlow''
       = Inr (None, [Error_FileNotFound ''e.root''])" by simp
  from loaders_agree [of ex_fs "''a.root''" "''Other''"] a
  have 2: "ratio_load_histogram ex_fs ''a.root'' ''Other''
       = Inr (None, [Error_HistNotFound ''HSCPFullAODAnalyzer/Other'' ''a.root''])
     \<and> grid_load_histogram ex_fs ''a.root'' ''Other''
       = Inr (None, [Error_HistNotFound ''HSCPMiniAODAnalyzer/Other'' ''a.root''])" by simp
  from loaders_agree [of ex_fs "''a.root''" "''EventCutFlow''"] a b
  have 3: "\<exists>g. grid_load_histogram ex_fs ''a.root'' ''EventCutFlow'' = Inr (Some g, [])
         \<and> th1_bins g = [0, 100, 50, 25, 10, 0]
         \<and> ratio_load_histogram ex_fs ''a.root'' ''EventCutFlow''
             = Inr (Some (fst (normalize_hist g ''HSCPMiniAODAnalyzer/EventCutFlow'' ''a.root'')),
                    snd (normalize_hist g ''HSCPMiniAODAnalyzer/EventCutFlow'' ''a.root''))"
    by auto
  from loaders_agree [of ex_grid_fs "''gluino1800_chi101300_10mm_heavyDecay_E.root''"
                         "''EventCutFlow''"] h z
  have 4: "\<exists>g m. grid_load_histogram ex_grid_fs ''gluino1800_chi101300_10mm_heavyDecay_E.root''
               ''EventCutFlow'' = Inr (Some g, [])
         \<and> ratio_load_histogram ex_grid_fs ''gluino1800_chi101300_10mm_heavyDecay_E.root''
               ''EventCutFlow'' = Inr (Some g, m)"
    by auto
  from e 1 2 3 4 show ?thesis by simp
qed

end
